theory Spec2Isabelle
  imports Main "HOL-Library.Monad_Syntax" "HOL-Library.Sublist"
begin

section \<open>Portable File Dialogs: the build without \<^verbatim>\<open>_WIN32\<close>\<close>

text \<open>
  The header \<^verbatim>\<open>portable-file-dialogs.h\<close> is embedded as it compiles when
  \<^verbatim>\<open>_WIN32\<close> is not defined: every \<^verbatim>\<open>#if _WIN32 ... #else ... #endif\<close> is
  resolved to its \<^verbatim>\<open>#else\<close> branch (popen, read, pclose, the helper programs).
  The operating system is a parameter of the model: what \<^verbatim>\<open>popen\<close> answers for a
  command, what each \<^verbatim>\<open>read\<close> on the pipe answers, and what \<^verbatim>\<open>pclose\<close> returns.
\<close>

subsection \<open>Enumerations\<close>

datatype buttons = ok | ok_cancel | yes_no | yes_no_cancel

datatype icon = info | warning | error | question

datatype state = idle | running | finished

datatype flag = is_verbose | has_zenity | has_matedialog | has_qarma | has_kdialog

text \<open>\<^verbatim>\<open>enum type { open, save, folder }\<close> of \<^verbatim>\<open>file_dialog\<close>.\<close>

datatype type = type_open | type_save | type_folder

subsection \<open>The operating system as the executor sees it\<close>

text \<open>
  One call \<^verbatim>\<open>read(m_fd, buf, BUFSIZ - 1)\<close> either stores some bytes and returns their
  number (\<open>Received buf\<close>, zero bytes at the end of the stream), or returns -1 and sets
  \<^verbatim>\<open>errno\<close> (\<open>Failed errno\<close>).
\<close>

datatype read_result = Received string | Failed int

text \<open>The two values of \<^verbatim>\<open>errno\<close> the model names, with their numbers on Linux.\<close>

definition EAGAIN :: int where
  "EAGAIN = 11"

definition EBADF :: int where
  "EBADF = 9"

text \<open>
  An open \<^verbatim>\<open>FILE *\<close> from \<^verbatim>\<open>popen\<close>: the answers the coming reads will get, in
  order, and the value \<^verbatim>\<open>pclose\<close> will return.
\<close>

record pipe =
  pending :: "nat \<Rightarrow> read_result"
  status :: int

text \<open>The calls that create and reap child processes, in the order they were made.\<close>

datatype syscall = Popen string bool | Pclose

text \<open>
  The process-wide state: the function-local statics \<^verbatim>\<open>flags\<close> and \<^verbatim>\<open>analysed\<close> of
  \<^verbatim>\<open>dialog\<close>, what was written to \<^verbatim>\<open>std::cerr\<close>, the trace of process calls, and
  \<open>spawn\<close>, the answer of \<^verbatim>\<open>popen\<close> to each command (\<open>None\<close> is the null pointer).
\<close>

record world =
  spawn :: "string \<Rightarrow> pipe option"
  calls :: "syscall list"
  cerr :: string
  flags :: "flag \<Rightarrow> bool"
  analysed :: bool

subsection \<open>class executor\<close>

record executor =
  m_state :: state
  m_result :: string
  m_exit_code :: int
  m_stream :: "pipe option"

text \<open>The default member initialisers; \<^verbatim>\<open>m_fd\<close> is \<^verbatim>\<open>fileno(m_stream)\<close> throughout.\<close>

definition executor_default :: executor where
  "executor_default = \<lparr>m_state = idle, m_result = [], m_exit_code = - 1, m_stream = None\<rparr>"

text \<open>
  \<^verbatim>\<open>buf[received] = '\0'; m_result += buf;\<close> appends \<^verbatim>\<open>buf\<close> as a C string: the bytes
  before the first NUL.
\<close>

definition c_str :: "string \<Rightarrow> string" where
  "c_str buf = takeWhile (\<lambda>c. c \<noteq> CHR 0x00) buf"

text \<open>One \<^verbatim>\<open>read\<close> on the pipe; on no open pipe (\<^verbatim>\<open>m_fd = -1\<close>) it fails with EBADF.\<close>

definition read :: "pipe option \<Rightarrow> read_result \<times> pipe option" where
  "read s = (case s of
       None \<Rightarrow> (Failed EBADF, None)
     | Some p \<Rightarrow> (pending p 0, Some (p\<lparr>pending := \<lambda>n. pending p (Suc n)\<rparr>)))"

definition ready :: "executor \<Rightarrow> bool \<times> executor" where
  "ready e =
     (if m_state e \<noteq> running then (True, e)
      else case read (m_stream e) of (r, s) \<Rightarrow>
        (case r of
           Failed errno \<Rightarrow>
             if errno = EAGAIN then (False, e\<lparr>m_stream := s\<rparr>)
             else (True, e\<lparr>m_stream := s, m_state := finished\<rparr>)
         | Received buf \<Rightarrow>
             if 0 < length buf
             then (False, e\<lparr>m_stream := s, m_result := m_result e @ c_str buf\<rparr>)
             else (True, e\<lparr>m_stream := s, m_state := finished\<rparr>)))"

text \<open>
  \<^verbatim>\<open>while (!ready()) sleep_for(200ms);\<close> The sleep changes nothing in the model. The
  loop has no bound: on a pipe that never ends it does not return, which is \<open>None\<close>.
\<close>

partial_function (option) stop_loop :: "executor \<Rightarrow> executor option" where
  "stop_loop e = (case ready e of (b, e') \<Rightarrow> if b then Some e' else stop_loop e')"

text \<open>
  \<^verbatim>\<open>pclose\<close> on a null stream is undefined behaviour; the model does not return there.
\<close>

definition stop :: "executor \<times> world \<Rightarrow> (executor \<times> world) option" where
  "stop ew = (case ew of (e, w) \<Rightarrow>
     if m_state e = idle then Some (e, w)
     else do {
       e1 \<leftarrow> stop_loop e;
       p \<leftarrow> m_stream e1;
       Some (e1\<lparr>m_exit_code := status p, m_state := idle\<rparr>,
             w\<lparr>calls := calls w @ [Pclose]\<rparr>)
     })"

text \<open>
  \<^verbatim>\<open>result(int *exit_code = nullptr)\<close>: the argument is what \<^verbatim>\<open>exit_code\<close> points to
  (\<open>None\<close> for the null pointer), returned as it is after the call.
\<close>

definition result ::
  "int option \<Rightarrow> executor \<times> world \<Rightarrow> ((string \<times> int option) \<times> executor \<times> world) option" where
  "result exit_code ew = do {
     (e, w) \<leftarrow> stop ew;
     Some ((m_result e, (case exit_code of None \<Rightarrow> None | Some _ \<Rightarrow> Some (m_exit_code e))), e, w)
   }"

text \<open>
  \<^verbatim>\<open>popen(command.c_str(), "r")\<close> sees the command as a C string. The call
  \<^verbatim>\<open>fcntl(m_fd, F_SETFL, O_NONBLOCK)\<close> is what makes a read on an empty pipe answer
  EAGAIN instead of waiting.
\<close>

definition start :: "string \<Rightarrow> executor \<times> world \<Rightarrow> (executor \<times> world) option" where
  "start command ew = do {
     (e, w) \<leftarrow> stop ew;
     let e1 = e\<lparr>m_result := [], m_exit_code := - 1\<rparr>;
     (case spawn w (c_str command) of
        None \<Rightarrow>
          Some (e1\<lparr>m_stream := None\<rparr>, w\<lparr>calls := calls w @ [Popen (c_str command) False]\<rparr>)
      | Some p \<Rightarrow>
          Some (e1\<lparr>m_stream := Some p, m_state := running\<rparr>,
                w\<lparr>calls := calls w @ [Popen (c_str command) True]\<rparr>))
   }"

subsection \<open>class dialog\<close>

definition is_zenity :: "(flag \<Rightarrow> bool) \<Rightarrow> bool" where
  "is_zenity fl = (fl has_zenity \<or> fl has_matedialog \<or> fl has_qarma)"

definition is_kdialog :: "(flag \<Rightarrow> bool) \<Rightarrow> bool" where
  "is_kdialog fl = fl has_kdialog"

text \<open>
  \<^verbatim>\<open>execute\<close>: the command goes to \<^verbatim>\<open>std::cerr\<close> when the verbose flag is set, then
  a temporary executor is constructed on it (\<^verbatim>\<open>executor(command)\<close> is \<^verbatim>\<open>start\<close> on a
  default executor), asked for its result, and destroyed (\<^verbatim>\<open>~executor\<close> is \<^verbatim>\<open>stop\<close>).
\<close>

definition execute ::
  "string \<Rightarrow> int option \<Rightarrow> world \<Rightarrow> ((string \<times> int option) \<times> world) option" where
  "execute command exit_code w = do {
     let w1 = (if flags w is_verbose
               then w\<lparr>cerr := cerr w @ ''pfd: '' @ command @ [CHR 0x0A]\<rparr> else w);
     ew \<leftarrow> start command (executor_default, w1);
     (r, ew') \<leftarrow> result exit_code ew;
     (e', w') \<leftarrow> stop ew';
     Some (r, w')
   }"

definition desktop_helper :: "(flag \<Rightarrow> bool) \<Rightarrow> string" where
  "desktop_helper fl =
     (if fl has_zenity then ''zenity''
      else if fl has_matedialog then ''matedialog''
      else if fl has_qarma then ''qarma''
      else if fl has_kdialog then ''kdialog''
      else ''echo'')"

fun buttons_to_name :: "buttons \<Rightarrow> string" where
  "buttons_to_name ok_cancel = ''okcancel''"
| "buttons_to_name yes_no = ''yesno''"
| "buttons_to_name yes_no_cancel = ''yesnocancel''"
| "buttons_to_name ok = ''ok''"

fun get_icon_name :: "icon \<Rightarrow> string" where
  "get_icon_name warning = ''warning''"
| "get_icon_name error = ''error''"
| "get_icon_name question = ''question''"
| "get_icon_name info = ''information''"

text \<open>
  \<^verbatim>\<open>std::regex_replace(str, std::regex(re), fmt)\<close> for the two uses in the header, where
  \<^verbatim>\<open>re\<close> matches exactly one character: every character that matches is replaced by
  the format applied to it, every other one is copied.
\<close>

definition regex_replace :: "string \<Rightarrow> (char \<Rightarrow> bool) \<Rightarrow> (char \<Rightarrow> string) \<Rightarrow> string" where
  "regex_replace str re fmt = concat (map (\<lambda>c. if re c then fmt c else [c]) str)"

text \<open>
  Pattern \<^verbatim>\<open>['"]\<close>, format \<^verbatim>\<open>$&$&\<close> (the match, twice). \<open>CHR 0x27\<close> is the single
  quote, \<open>CHR 0x22\<close> the double quote, \<open>CHR 0x5C\<close> the backslash.
\<close>

definition powershell_quote :: "string \<Rightarrow> string" where
  "powershell_quote str =
     [CHR 0x27] @ regex_replace str (\<lambda>c. c = CHR 0x27 \<or> c = CHR 0x22) (\<lambda>c. [c, c]) @ [CHR 0x27]"

text \<open>Pattern \<^verbatim>\<open>'\<close>, format \<^verbatim>\<open>'\''\<close>.\<close>

definition shell_quote :: "string \<Rightarrow> string" where
  "shell_quote str =
     [CHR 0x27] @ regex_replace str (\<lambda>c. c = CHR 0x27)
                    (\<lambda>c. [CHR 0x27, CHR 0x5C, CHR 0x27, CHR 0x27]) @ [CHR 0x27]"

definition check_program :: "string \<Rightarrow> world \<Rightarrow> (bool \<times> world) option" where
  "check_program program w = do {
     (r, w') \<leftarrow> execute (''which '' @ program @ '' 2>/dev/null'') (Some (- 1)) w;
     Some (snd r = Some 0, w')
   }"

text \<open>
  The constructor \<^verbatim>\<open>dialog(bool resync = false)\<close>. The object it constructs holds one
  member, \<^verbatim>\<open>m_async\<close>, a default executor; the constructor body works on the statics.
\<close>

definition dialog :: "bool \<Rightarrow> world \<Rightarrow> world option" where
  "dialog resync w =
     (if resync \<or> \<not> analysed w then do {
        (b1, w1) \<leftarrow> check_program ''zenity'' w;
        (b2, w2) \<leftarrow> check_program ''matedialog'' (w1\<lparr>flags := (flags w1)(has_zenity := b1)\<rparr>);
        (b3, w3) \<leftarrow> check_program ''qarma'' (w2\<lparr>flags := (flags w2)(has_matedialog := b2)\<rparr>);
        (b4, w4) \<leftarrow> check_program ''kdialog'' (w3\<lparr>flags := (flags w3)(has_qarma := b3)\<rparr>);
        Some (w4\<lparr>flags := (flags w4)(has_kdialog := b4), analysed := True\<rparr>)
      }
      else Some w)"

subsection \<open>class file_dialog and the dialogs built on it\<close>

definition file_dialog_command ::
  "(flag \<Rightarrow> bool) \<Rightarrow> type \<Rightarrow> string \<Rightarrow> string \<Rightarrow> string \<Rightarrow> bool \<Rightarrow> string" where
  "file_dialog_command fl in_type title default_path filter' multiselect =
     (if is_zenity fl
      then desktop_helper fl
           @ '' --file-selection --filename='' @ shell_quote default_path
           @ '' --title '' @ shell_quote title
           @ '' --file-filter='' @ shell_quote filter'
           @ (if multiselect then '' --multiple'' else [])
           @ (if in_type = type_save then '' --save'' else [])
      else desktop_helper fl)"

text \<open>
  A dialog constructor runs the base constructor \<^verbatim>\<open>dialog()\<close>, assembles the command
  from the flags, and calls \<^verbatim>\<open>m_async.start(command)\<close>. The constructed object is its
  \<^verbatim>\<open>m_async\<close>.
\<close>

definition file_dialog ::
  "type \<Rightarrow> string \<Rightarrow> string \<Rightarrow> string \<Rightarrow> bool \<Rightarrow> world \<Rightarrow> (executor \<times> world) option" where
  "file_dialog in_type title default_path filter' multiselect w = do {
     w1 \<leftarrow> dialog False w;
     start (file_dialog_command (flags w1) in_type title default_path filter' multiselect)
           (executor_default, w1)
   }"

definition open_file ::
  "string \<Rightarrow> string \<Rightarrow> string \<Rightarrow> bool \<Rightarrow> world \<Rightarrow> (executor \<times> world) option" where
  "open_file title default_path filter' multiselect =
     file_dialog type_open title default_path filter' multiselect"

definition save_file :: "string \<Rightarrow> string \<Rightarrow> string \<Rightarrow> world \<Rightarrow> (executor \<times> world) option" where
  "save_file title default_path filter' = file_dialog type_save title default_path filter' False"

definition select_folder :: "string \<Rightarrow> string \<Rightarrow> world \<Rightarrow> (executor \<times> world) option" where
  "select_folder title default_path = file_dialog type_folder title default_path [] False"

subsection \<open>class settings\<close>

definition verbose :: "bool \<Rightarrow> world \<Rightarrow> world option" where
  "verbose v w = do {
     w1 \<leftarrow> dialog False w;
     Some (w1\<lparr>flags := (flags w1)(is_verbose := v)\<rparr>)
   }"

definition rescan :: "world \<Rightarrow> world option" where
  "rescan w = dialog True w"

subsection \<open>class notify\<close>

definition notify_command :: "(flag \<Rightarrow> bool) \<Rightarrow> string \<Rightarrow> string \<Rightarrow> icon \<Rightarrow> string" where
  "notify_command fl title message icon0 =
     (let icon = (if icon0 = question then info else icon0) in
      if is_zenity fl
      then desktop_helper fl
           @ '' --notification --window-icon '' @ get_icon_name icon
           @ '' --text '' @ shell_quote (title @ [CHR 0x0A] @ message)
      else if is_kdialog fl
      then desktop_helper fl
           @ '' --icon '' @ get_icon_name icon
           @ '' --title '' @ shell_quote title
           @ '' --passivepopup '' @ shell_quote message
           @ '' 5''
      else desktop_helper fl)"

definition notify :: "string \<Rightarrow> string \<Rightarrow> icon \<Rightarrow> world \<Rightarrow> (executor \<times> world) option" where
  "notify title message icon w = do {
     w1 \<leftarrow> dialog False w;
     start (notify_command (flags w1) title message icon) (executor_default, w1)
   }"

subsection \<open>class message\<close>

definition message_command ::
  "(flag \<Rightarrow> bool) \<Rightarrow> string \<Rightarrow> string \<Rightarrow> buttons \<Rightarrow> icon \<Rightarrow> string" where
  "message_command fl title text buttons icon =
     (if is_zenity fl
      then desktop_helper fl
           @ (case buttons of
                ok_cancel \<Rightarrow> '' --question --ok-label=OK --cancel-label=Cancel''
              | yes_no \<Rightarrow> '' --question''
              | yes_no_cancel \<Rightarrow>
                  '' --list --column '' @ [CHR 0x27, CHR 0x27] @ '' --hide-header ''
                  @ [CHR 0x27] @ ''Yes'' @ [CHR 0x27] @ '' '' @ [CHR 0x27] @ ''No'' @ [CHR 0x27]
              | ok \<Rightarrow>
                  (case icon of
                     error \<Rightarrow> '' --error''
                   | warning \<Rightarrow> '' --warning''
                   | _ \<Rightarrow> '' --info''))
           @ '' --title '' @ shell_quote title
           @ '' --width 300 --height 0''
           @ '' --text '' @ shell_quote text
           @ '' --icon-name=dialog-'' @ get_icon_name icon
      else if is_kdialog fl
      then desktop_helper fl
           @ (if buttons = ok
              then (case icon of
                      error \<Rightarrow> '' --error''
                    | warning \<Rightarrow> '' --sorry''
                    | _ \<Rightarrow> '' --msgbox'')
              else '' --''
                   @ (if icon = warning \<or> icon = error then ''warning'' else [])
                   @ ''yesno''
                   @ (if buttons = yes_no_cancel then ''cancel'' else []))
           @ '' '' @ shell_quote text
           @ '' --title '' @ shell_quote title
           @ (if buttons = ok_cancel then '' --yes-label OK --no-label Cancel'' else [])
      else desktop_helper fl)"

definition message ::
  "string \<Rightarrow> string \<Rightarrow> buttons \<Rightarrow> icon \<Rightarrow> world \<Rightarrow> (executor \<times> world) option" where
  "message title text buttons icon w = do {
     w1 \<leftarrow> dialog False w;
     start (message_command (flags w1) title text buttons icon) (executor_default, w1)
   }"

subsection \<open>Auxiliary notions for the properties\<close>

text \<open>
  The child processes created by \<^verbatim>\<open>popen\<close> and not yet reaped by \<^verbatim>\<open>pclose\<close>, counted
  over a trace of calls.
\<close>

fun live :: "syscall list \<Rightarrow> int" where
  "live [] = 0"
| "live (Popen c b # cs) = (if b then 1 else 0) + live cs"
| "live (Pclose # cs) = live cs - 1"

text \<open>The pipe with its first \<open>n\<close> pending reads consumed.\<close>

definition advance :: "nat \<Rightarrow> pipe \<Rightarrow> pipe" where
  "advance n p = p\<lparr>pending := \<lambda>k. pending p (n + k)\<rparr>"

text \<open>What \<^verbatim>\<open>ready\<close> appends to \<^verbatim>\<open>m_result\<close> for a read.\<close>

fun appended :: "read_result \<Rightarrow> string" where
  "appended (Received buf) = c_str buf"
| "appended (Failed errno) = []"

text \<open>A read that makes \<^verbatim>\<open>ready\<close> move to \<open>finished\<close>: neither data nor EAGAIN.\<close>

fun final :: "read_result \<Rightarrow> bool" where
  "final (Received buf) = (buf = [])"
| "final (Failed errno) = (errno \<noteq> EAGAIN)"

text \<open>What the first \<open>n\<close> reads of a pipe append, in order.\<close>

definition drained :: "nat \<Rightarrow> pipe \<Rightarrow> string" where
  "drained n p = concat (map (\<lambda>k. appended (pending p k)) [0..<n])"

text \<open>The \<open>n\<close>-th read is the first final one.\<close>

definition ends_at :: "nat \<Rightarrow> pipe \<Rightarrow> bool" where
  "ends_at n p = (final (pending p n) \<and> (\<forall>k<n. \<not> final (pending p k)))"

text \<open>
  Helper selection as a search: the name of the first helper, in the given order of
  priority, whose flag is set, and the fallback name when none is.
\<close>

fun first_detected :: "(flag \<Rightarrow> bool) \<Rightarrow> (flag \<times> string) list \<Rightarrow> string \<Rightarrow> string" where
  "first_detected fl [] fallback = fallback"
| "first_detected fl ((f, name) # rest) fallback =
     (if fl f then name else first_detected fl rest fallback)"

text \<open>The probe command of \<^verbatim>\<open>check_program\<close>, as \<^verbatim>\<open>popen\<close> sees it.\<close>

definition which_command :: "string \<Rightarrow> string" where
  "which_command program = c_str (''which '' @ program @ '' 2>/dev/null'')"

text \<open>What a probe leaves of the world: the trace and the diagnostic stream grow.\<close>

definition probed :: "string \<Rightarrow> bool \<Rightarrow> world \<Rightarrow> world" where
  "probed program launched w =
     w\<lparr>calls := calls w @ Popen (which_command program) launched # (if launched then [Pclose] else []),
       cerr := (if flags w is_verbose
                then cerr w @ ''pfd: '' @ ''which '' @ program @ '' 2>/dev/null'' @ [CHR 0x0A]
                else cerr w)\<rparr>"

subsection \<open>Reference reading of quoted text\<close>

text \<open>
  Quote removal of the POSIX shell on one word, for words made of single-quoted segments
  and backslash-escaped characters only: inside single quotes every character stands
  for itself up to the next single quote; outside, a backslash makes the next character
  stand for itself. The flag says whether the scan is inside single quotes. Any other
  unquoted character, an unfinished quote or a trailing backslash gives \<open>None\<close>.
\<close>

fun sh_word :: "bool \<Rightarrow> string \<Rightarrow> string option" where
  "sh_word False [] = Some []"
| "sh_word True [] = None"
| "sh_word True (c # cs) =
     (if c = CHR 0x27 then sh_word False cs else map_option ((#) c) (sh_word True cs))"
| "sh_word False (c # cs) =
     (if c = CHR 0x27 then sh_word True cs
      else if c = CHR 0x5C
      then (case cs of [] \<Rightarrow> None | d # ds \<Rightarrow> map_option ((#) d) (sh_word False ds))
      else None)"

text \<open>
  The value of a PowerShell single-quoted string literal: between the enclosing single
  quotes, two single quotes stand for one and every other character for itself. The
  flag says whether the opening quote has been read.
\<close>

fun ps_literal :: "bool \<Rightarrow> string \<Rightarrow> string option" where
  "ps_literal False [] = None"
| "ps_literal False (c # cs) = (if c = CHR 0x27 then ps_literal True cs else None)"
| "ps_literal True [] = None"
| "ps_literal True [c] = (if c = CHR 0x27 then Some [] else None)"
| "ps_literal True (c # d # cs) =
     (if c = CHR 0x27
      then (if d = CHR 0x27 then map_option ((#) c) (ps_literal True cs) else None)
      else map_option ((#) c) (ps_literal True (d # cs)))"

subsection \<open>Concrete environments\<close>

text \<open>
  A child process whose pipe answers the reads \<open>rs\<close> in order, then the end of the
  stream for ever, and for which \<^verbatim>\<open>pclose\<close> returns \<open>st\<close>.
\<close>

definition pipe_of :: "read_result list \<Rightarrow> int \<Rightarrow> pipe" where
  "pipe_of rs st = \<lparr>pending = (\<lambda>n. if n < length rs then rs ! n else Received []), status = st\<rparr>"

text \<open>A child process that never writes and never exits: every read answers EAGAIN.\<close>

definition pipe_hung :: pipe where
  "pipe_hung = \<lparr>pending = (\<lambda>n. Failed EAGAIN), status = 0\<rparr>"

text \<open>An executor as a successful \<^verbatim>\<open>start\<close> leaves a default one.\<close>

definition running_on :: "pipe \<Rightarrow> executor" where
  "running_on p = executor_default\<lparr>m_state := running, m_stream := Some p\<rparr>"

text \<open>A system where \<^verbatim>\<open>popen\<close> fails for every command.\<close>

definition launch_fails :: "string \<Rightarrow> pipe option" where
  "launch_fails command = None"

text \<open>A system where every command starts, writes nothing, and is reaped with \<open>st\<close>.\<close>

definition launch_silent :: "int \<Rightarrow> string \<Rightarrow> pipe option" where
  "launch_silent st command = Some (pipe_of [] st)"

text \<open>
  A system where the probe of each program of the list writes a path and is reaped with
  0, and every other command writes nothing and is reaped with 256 (exit code 1).
\<close>

definition which_finds :: "string list \<Rightarrow> string \<Rightarrow> pipe option" where
  "which_finds installed command =
     (if command \<in> set (map which_command installed)
      then Some (pipe_of [Received ''/usr/bin/x'' ] 0)
      else Some (pipe_of [] 256))"

definition flags_of :: "flag list \<Rightarrow> flag \<Rightarrow> bool" where
  "flags_of fs f = (f \<in> set fs)"

definition world_of :: "(string \<Rightarrow> pipe option) \<Rightarrow> flag list \<Rightarrow> bool \<Rightarrow> world" where
  "world_of sp fs an = \<lparr>spawn = sp, calls = [], cerr = [], flags = flags_of fs, analysed = an\<rparr>"

section \<open>Properties\<close>

subsection \<open>The executor: auxiliary facts\<close>

lemma ready_not_running: "m_state e \<noteq> running \<Longrightarrow> ready e = (True, e)"
  by (simp add: ready_def)

lemma stop_loop_not_running: "m_state e \<noteq> running \<Longrightarrow> stop_loop e = Some e"
  by (subst stop_loop.simps) (simp add: ready_not_running)

lemma advance_0 [simp]: "advance 0 p = p"
  by (simp add: advance_def)

lemma status_advance [simp]: "status (advance n p) = status p"
  by (simp add: advance_def)

lemma pending_advance [simp]: "pending (advance n p) k = pending p (n + k)"
  by (simp add: advance_def)

lemma advance_advance: "advance m (advance n p) = advance (n + m) p"
  by (simp add: advance_def add.assoc)

lemma ready_running:
  assumes "m_state e = running" "m_stream e = Some p"
  shows "ready e =
    (if final (pending p 0)
     then (True, e\<lparr>m_stream := Some (advance 1 p), m_state := finished\<rparr>)
     else (False, e\<lparr>m_stream := Some (advance 1 p),
                     m_result := m_result e @ appended (pending p 0)\<rparr>))"
  using assms
  by (cases "pending p 0") (auto simp: ready_def read_def advance_def)

lemma drained_0 [simp]: "drained 0 p = []"
  by (simp add: drained_def)

lemma drained_Suc_front: "drained (Suc n) p = appended (pending p 0) @ drained n (advance 1 p)"
proof -
  have "[0..<Suc n] = 0 # map Suc [0..<n]"
    by (simp add: upt_conv_Cons map_Suc_upt del: upt_Suc)
  then show ?thesis
    by (simp add: drained_def comp_def del: upt_Suc)
qed

lemma ends_at_0: "ends_at 0 p \<longleftrightarrow> final (pending p 0)"
  by (simp add: ends_at_def)

lemma ends_at_Suc: "ends_at (Suc n) p \<Longrightarrow> \<not> final (pending p 0) \<and> ends_at n (advance 1 p)"
  by (auto simp: ends_at_def)

text \<open>
  The loop of \<^verbatim>\<open>stop\<close> returns on every pipe that reaches a final read, having
  appended what the reads before it delivered.
\<close>

lemma stop_loop_running:
  "m_state e = running \<Longrightarrow> m_stream e = Some p \<Longrightarrow> ends_at n p \<Longrightarrow>
   stop_loop e = Some (e\<lparr>m_stream := Some (advance (Suc n) p),
                           m_result := m_result e @ drained n p, m_state := finished\<rparr>)"
proof (induction n arbitrary: e p)
  case 0
  then show ?case
    by (subst stop_loop.simps) (simp add: ready_running ends_at_0)
next
  case (Suc n)
  from Suc.prems(3) have nf: "\<not> final (pending p 0)" and en: "ends_at n (advance 1 p)"
    using ends_at_Suc by blast+
  let ?e1 = "e\<lparr>m_stream := Some (advance 1 p),
                m_result := m_result e @ appended (pending p 0)\<rparr>"
  have r: "ready e = (False, ?e1)"
    using Suc.prems(1,2) nf by (simp add: ready_running)
  have "stop_loop e = stop_loop ?e1"
    by (subst stop_loop.simps) (simp add: r)
  also have "\<dots> = Some (?e1\<lparr>m_stream := Some (advance (Suc n) (advance 1 p)),
                           m_result := m_result ?e1 @ drained n (advance 1 p),
                           m_state := finished\<rparr>)"
    using Suc.prems(1) en by (intro Suc.IH) simp_all
  finally show ?case
    by (simp add: advance_advance drained_Suc_front)
qed

lemma stop_idle: "m_state e = idle \<Longrightarrow> stop (e, w) = Some (e, w)"
  by (simp add: stop_def)

lemma stop_finished:
  "m_state e = finished \<Longrightarrow> m_stream e = Some p \<Longrightarrow>
   stop (e, w) = Some (e\<lparr>m_exit_code := status p, m_state := idle\<rparr>,
                       w\<lparr>calls := calls w @ [Pclose]\<rparr>)"
  by (simp add: stop_def stop_loop_not_running)

lemma stop_running:
  "m_state e = running \<Longrightarrow> m_stream e = Some p \<Longrightarrow> ends_at n p \<Longrightarrow>
   stop (e, w) = Some (e\<lparr>m_stream := Some (advance (Suc n) p),
                          m_result := m_result e @ drained n p,
                          m_exit_code := status p, m_state := idle\<rparr>,
                       w\<lparr>calls := calls w @ [Pclose]\<rparr>)"
  by (simp add: stop_def stop_loop_running)

text \<open>
  From every state whose process comes to an end, \<^verbatim>\<open>stop\<close> returns: the executor is
  idle, holds the whole output and the value of \<^verbatim>\<open>pclose\<close>, and the world has one
  more \<^verbatim>\<open>pclose\<close> in its trace.
\<close>

lemma stop_ends:
  assumes "m_stream e = Some p"
    and "m_state e = finished \<or> (m_state e = running \<and> ends_at n p)"
  shows "\<exists>e1. stop (e, w) = Some (e1, w\<lparr>calls := calls w @ [Pclose]\<rparr>)
           \<and> m_state e1 = idle \<and> m_exit_code e1 = status p
           \<and> m_result e1 = m_result e @ (if m_state e = finished then [] else drained n p)"
  using assms stop_finished [of e p w] stop_running [of e p n w] by auto

text \<open>
  On a child that never writes and never exits the loop of \<^verbatim>\<open>stop\<close> runs for ever:
  \<^verbatim>\<open>stop\<close>, and with it \<^verbatim>\<open>result\<close>, \<^verbatim>\<open>start\<close> and the destructor, do not return.
\<close>

lemma stop_loop_hung:
  assumes "stop_loop e = Some y"
  shows "\<not> (m_state e = running
             \<and> (\<exists>p. m_stream e = Some p \<and> (\<forall>k. pending p k = Failed EAGAIN)))"
  using assms
proof (induction rule: stop_loop.raw_induct [rotated 1, consumes 1])
  case (1 f e y)
  show ?case
  proof
    assume "m_state e = running
            \<and> (\<exists>p. m_stream e = Some p \<and> (\<forall>k. pending p k = Failed EAGAIN))"
    then obtain p where r: "m_state e = running" and p: "m_stream e = Some p"
      and h: "\<forall>k. pending p k = Failed EAGAIN"
      by blast
    let ?e1 = "e\<lparr>m_stream := Some (advance 1 p)\<rparr>"
    have "ready e = (False, ?e1)"
      using r p h by (simp add: ready_running)
    with 1(2) have "f ?e1 = Some y"
      by simp
    from 1(1) [OF this] show False
      using r h by simp
  qed
qed

lemma stop_hung: "stop (running_on pipe_hung, w) = None"
proof -
  have "stop_loop (running_on pipe_hung) = None"
    using stop_loop_hung [of "running_on pipe_hung"]
    by (cases "stop_loop (running_on pipe_hung)") (auto simp: running_on_def pipe_hung_def)
  then show ?thesis
    by (simp add: stop_def running_on_def)
qed

lemma live_append: "live (xs @ ys) = live xs + live ys"
  by (induction xs rule: live.induct) simp_all

lemma start_idle:
  "m_state e = idle \<Longrightarrow>
   start command (e, w) =
     (case spawn w (c_str command) of
        None \<Rightarrow> Some (e\<lparr>m_result := [], m_exit_code := - 1, m_stream := None\<rparr>,
                      w\<lparr>calls := calls w @ [Popen (c_str command) False]\<rparr>)
      | Some q \<Rightarrow> Some (e\<lparr>m_result := [], m_exit_code := - 1, m_stream := Some q,
                          m_state := running\<rparr>,
                        w\<lparr>calls := calls w @ [Popen (c_str command) True]\<rparr>))"
  by (simp add: start_def stop_idle Let_def split: option.split)

lemma result_idle:
  "m_state e = idle \<Longrightarrow>
   result x (e, w) = Some ((m_result e, map_option (\<lambda>_. m_exit_code e) x), e, w)"
  by (cases x) (simp_all add: result_def stop_idle)

lemma ends_at_pipe_of_Nil: "ends_at 0 (pipe_of [] st)"
  by (simp add: ends_at_def pipe_of_def)

lemma c_str_no_nul: "CHR 0x00 \<notin> set s \<Longrightarrow> c_str s = s"
  by (auto simp: c_str_def)

subsection \<open>The executor: \<^verbatim>\<open>ready\<close>\<close>

text \<open>
  The branches of \<^verbatim>\<open>ready\<close>. It returns true at once, changing nothing, when the
  executor is not running. When it is running it makes one read (the pipe moves on by
  exactly one answer): on data it appends the buffer as a C string and returns false;
  on EAGAIN (no data, process alive) it returns false and the output is unchanged; at
  the end of the stream the state becomes \<open>finished\<close> and it returns true.
\<close>

lemma ready_branches:
  "(m_state e \<noteq> running \<longrightarrow> ready e = (True, e))
   \<and> (m_state e = running \<and> m_stream e = Some p \<and> pending p 0 = Received buf \<and> buf \<noteq> [] \<longrightarrow>
        ready e = (False, e\<lparr>m_stream := Some (advance 1 p),
                            m_result := m_result e @ c_str buf\<rparr>))
   \<and> (m_state e = running \<and> m_stream e = Some p \<and> pending p 0 = Failed EAGAIN \<longrightarrow>
        ready e = (False, e\<lparr>m_stream := Some (advance 1 p)\<rparr>))
   \<and> (m_state e = running \<and> m_stream e = Some p \<and> pending p 0 = Received [] \<longrightarrow>
        ready e = (True, e\<lparr>m_stream := Some (advance 1 p), m_state := finished\<rparr>))"
  by (simp add: ready_not_running ready_running)

lemma ready_branches_examples:
  "ready executor_default = (True, executor_default)
   \<and> ready (running_on (pipe_of [Received ''hello''] 0)) =
       (False, (running_on (pipe_of [Received ''hello''] 0))
                 \<lparr>m_stream := Some (advance 1 (pipe_of [Received ''hello''] 0)),
                  m_result := ''hello''\<rparr>)
   \<and> ready (running_on pipe_hung) =
       (False, (running_on pipe_hung)\<lparr>m_stream := Some (advance 1 pipe_hung)\<rparr>)
   \<and> ready (running_on (pipe_of [] 0)) =
       (True, (running_on (pipe_of [] 0))
                \<lparr>m_stream := Some (advance 1 (pipe_of [] 0)), m_state := finished\<rparr>)"
  using ready_branches [of executor_default]
    ready_branches [of "running_on (pipe_of [Received ''hello''] 0)"
                       "pipe_of [Received ''hello''] 0" "''hello''"]
    ready_branches [of "running_on pipe_hung" pipe_hung]
    ready_branches [of "running_on (pipe_of [] 0)" "pipe_of [] 0"]
  by (simp add: executor_default_def running_on_def pipe_of_def pipe_hung_def c_str_def)

text \<open>
  C1 fails on the code where the data read holds a NUL byte. \<^verbatim>\<open>ready\<close> ends the
  buffer at \<^verbatim>\<open>buf[received]\<close>, so it means to append every byte read, but
  \<^verbatim>\<open>m_result += buf\<close> stops at the first NUL: of the three bytes \<open>a\<close>, NUL, \<open>b\<close>
  read at once only \<open>a\<close> reaches the accumulated output, while \<^verbatim>\<open>ready\<close> returns
  false as for any data. What is lost depends on how the reads fall: the four bytes
  \<open>a\<close>, NUL, \<open>b\<close>, \<open>c\<close> give the result \<open>a\<close> when they come in one read and \<open>ac\<close>
  when the last byte comes in a read of its own.
\<close>

theorem ready_drops_bytes_after_nul:
  "fst (ready (running_on (pipe_of [Received [CHR ''a'', CHR 0x00, CHR ''b'']] 0))) = False
   \<and> m_result (snd (ready (running_on (pipe_of [Received [CHR ''a'', CHR 0x00, CHR ''b'']] 0))))
     = ''a''
   \<and> m_result (snd (ready (running_on (pipe_of [Received [CHR ''a'', CHR 0x00, CHR ''b'']] 0))))
     \<noteq> m_result (running_on (pipe_of [Received [CHR ''a'', CHR 0x00, CHR ''b'']] 0))
         @ [CHR ''a'', CHR 0x00, CHR ''b'']
   \<and> map_option (fst \<circ> fst)
       (result None
          (running_on (pipe_of [Received [CHR ''a'', CHR 0x00, CHR ''b'', CHR ''c'']] 0),
           world_of launch_fails [] True))
     = Some ''a''
   \<and> map_option (fst \<circ> fst)
       (result None
          (running_on (pipe_of [Received [CHR ''a'', CHR 0x00, CHR ''b''], Received ''c''] 0),
           world_of launch_fails [] True))
     = Some ''ac''"
proof -
  let ?one = "pipe_of [Received [CHR ''a'', CHR 0x00, CHR ''b'', CHR ''c'']] 0"
  let ?two = "pipe_of [Received [CHR ''a'', CHR 0x00, CHR ''b''], Received ''c''] 0"
  let ?w = "world_of launch_fails [] True"
  have r: "m_state (running_on q) = running" and s: "m_stream (running_on q) = Some q"
    and m: "m_result (running_on q) = []" for q
    by (simp_all add: running_on_def executor_default_def)
  have e1: "ends_at 1 ?one" and e2: "ends_at 2 ?two"
    by (simp_all add: ends_at_def pipe_of_def less_Suc_eq numeral_2_eq_2)
  have d1: "drained (Suc 0) ?one = ''a''" and d2: "drained (Suc (Suc 0)) ?two = ''ac''"
    by (simp_all add: drained_def pipe_of_def c_str_def)
  have "stop (running_on ?one, ?w)
        = Some ((running_on ?one)\<lparr>m_stream := Some (advance (Suc 1) ?one),
                  m_result := m_result (running_on ?one) @ drained 1 ?one,
                  m_exit_code := status ?one, m_state := idle\<rparr>,
                ?w\<lparr>calls := calls ?w @ [Pclose]\<rparr>)"
    using r s e1 by (rule stop_running)
  then have 1: "map_option (fst \<circ> fst) (result None (running_on ?one, ?w)) = Some ''a''"
    by (simp add: result_def d1 m)
  have "stop (running_on ?two, ?w)
        = Some ((running_on ?two)\<lparr>m_stream := Some (advance (Suc 2) ?two),
                  m_result := m_result (running_on ?two) @ drained 2 ?two,
                  m_exit_code := status ?two, m_state := idle\<rparr>,
                ?w\<lparr>calls := calls ?w @ [Pclose]\<rparr>)"
    using r s e2 by (rule stop_running)
  then have 2: "map_option (fst \<circ> fst) (result None (running_on ?two, ?w)) = Some ''ac''"
    by (simp add: result_def d2 m numeral_2_eq_2)
  have 0: "fst (ready (running_on (pipe_of [Received [CHR ''a'', CHR 0x00, CHR ''b'']] 0))) = False
   \<and> m_result (snd (ready (running_on (pipe_of [Received [CHR ''a'', CHR 0x00, CHR ''b'']] 0))))
     = ''a''
   \<and> m_result (snd (ready (running_on (pipe_of [Received [CHR ''a'', CHR 0x00, CHR ''b'']] 0))))
     \<noteq> m_result (running_on (pipe_of [Received [CHR ''a'', CHR 0x00, CHR ''b'']] 0))
         @ [CHR ''a'', CHR 0x00, CHR ''b'']"
    by (simp add: ready_def read_def running_on_def pipe_of_def executor_default_def c_str_def)
  from 0 1 2 show ?thesis
    by blast
qed

subsection \<open>The executor: \<^verbatim>\<open>start\<close>\<close>

text \<open>
  C2. On an executor that is finished, or running a process that comes to an end,
  \<^verbatim>\<open>start\<close> returns, and it does the full \<^verbatim>\<open>stop\<close> of the prior process first:
  \<^verbatim>\<open>stop\<close> has read the pipe to its end (a running executor has consumed every answer
  up to the final one and appended what they delivered), has taken the exit code from
  \<^verbatim>\<open>pclose\<close> and left the executor idle, with one \<^verbatim>\<open>pclose\<close> more in the trace. Then
  the accumulated output is cleared and the exit code reset to -1, and only then comes
  the \<^verbatim>\<open>popen\<close> of the new command: the executor is running on the new pipe, or idle
  when the launch failed, and nothing else in the world has changed. Where the
  executor's process was the one live child, no child is live between the two calls
  and the executor owns at most one afterwards. The stop is synchronous: on a prior
  process that never writes and never exits, \<^verbatim>\<open>start\<close> does not return.
\<close>

theorem start_stops_first:
  assumes "m_stream e = Some p"
    and "m_state e = finished \<or> (m_state e = running \<and> ends_at n p)"
  shows "(\<exists>e1 w1 e' w'.
           stop (e, w) = Some (e1, w1) \<and> m_state e1 = idle
         \<and> m_stream e1 = Some (if m_state e = finished then p else advance (Suc n) p)
         \<and> m_result e1 = m_result e @ (if m_state e = finished then [] else drained n p)
         \<and> m_exit_code e1 = status p
         \<and> w1 = w\<lparr>calls := calls w @ [Pclose]\<rparr>
         \<and> calls w1 = calls w @ [Pclose]
         \<and> start command (e, w) = Some (e', w')
         \<and> start command (e1, w1) = Some (e', w')
         \<and> m_result e' = [] \<and> m_exit_code e' = - 1
         \<and> m_stream e' = spawn w (c_str command)
         \<and> m_state e' = (if spawn w (c_str command) = None then idle else running)
         \<and> w' = w1\<lparr>calls := calls w1
                         @ [Popen (c_str command) (spawn w (c_str command) \<noteq> None)]\<rparr>
         \<and> calls w' = calls w1 @ [Popen (c_str command) (spawn w (c_str command) \<noteq> None)]
         \<and> (live (calls w) = 1 \<longrightarrow>
               live (calls w1) = 0 \<and> live (calls w') = (if m_state e' = idle then 0 else 1)))
       \<and> (m_state h = running \<and> m_stream h = Some q \<and> (\<forall>k. pending q k = Failed EAGAIN) \<longrightarrow>
             stop (h, w) = None \<and> start command (h, w) = None)"
proof -
  let ?w1 = "w\<lparr>calls := calls w @ [Pclose]\<rparr>"
  let ?e1 = "e\<lparr>m_stream := Some (if m_state e = finished then p else advance (Suc n) p),
               m_result := m_result e @ (if m_state e = finished then [] else drained n p),
               m_exit_code := status p, m_state := idle\<rparr>"
  have s: "stop (e, w) = Some (?e1, ?w1)"
  proof (cases "m_state e = finished")
    case True
    then show ?thesis
      using assms(1) by (simp add: stop_finished)
  next
    case False
    with assms(2) have "m_state e = running" and "ends_at n p"
      by auto
    from stop_running [OF this(1) assms(1) this(2), of w] False show ?thesis
      by simp
  qed
  have i: "m_state ?e1 = idle"
    by simp
  have eq: "start command (e, w) = start command (?e1, ?w1)"
    using s by (simp add: start_def stop_idle)
  have hung: "stop (h, w) = None \<and> start command (h, w) = None"
    if "m_state h = running \<and> m_stream h = Some q \<and> (\<forall>k. pending q k = Failed EAGAIN)"
  proof -
    have "stop_loop h = None"
      using that stop_loop_hung [of h] by (cases "stop_loop h") auto
    with that have "stop (h, w) = None"
      by (simp add: stop_def)
    then show ?thesis
      by (simp add: start_def)
  qed
  have main: "\<exists>e1 w1 e' w'.
           stop (e, w) = Some (e1, w1) \<and> m_state e1 = idle
         \<and> m_stream e1 = Some (if m_state e = finished then p else advance (Suc n) p)
         \<and> m_result e1 = m_result e @ (if m_state e = finished then [] else drained n p)
         \<and> m_exit_code e1 = status p
         \<and> w1 = w\<lparr>calls := calls w @ [Pclose]\<rparr>
         \<and> calls w1 = calls w @ [Pclose]
         \<and> start command (e, w) = Some (e', w')
         \<and> start command (e1, w1) = Some (e', w')
         \<and> m_result e' = [] \<and> m_exit_code e' = - 1
         \<and> m_stream e' = spawn w (c_str command)
         \<and> m_state e' = (if spawn w (c_str command) = None then idle else running)
         \<and> w' = w1\<lparr>calls := calls w1
                         @ [Popen (c_str command) (spawn w (c_str command) \<noteq> None)]\<rparr>
         \<and> calls w' = calls w1 @ [Popen (c_str command) (spawn w (c_str command) \<noteq> None)]
         \<and> (live (calls w) = 1 \<longrightarrow>
               live (calls w1) = 0 \<and> live (calls w') = (if m_state e' = idle then 0 else 1))"
  proof (cases "spawn w (c_str command)")
    case None
    let ?e' = "?e1\<lparr>m_result := [], m_exit_code := - 1, m_stream := None\<rparr>"
    let ?w' = "?w1\<lparr>calls := calls ?w1 @ [Popen (c_str command) False]\<rparr>"
    have "start command (?e1, ?w1) = Some (?e', ?w')"
      using None by (simp add: start_idle [OF i])
    then show ?thesis
      using s eq None
      by (intro exI [of _ ?e1] exI [of _ ?w1] exI [of _ ?e'] exI [of _ ?w'])
        (simp add: live_append)
  next
    case (Some r)
    let ?e' = "?e1\<lparr>m_result := [], m_exit_code := - 1, m_stream := Some r,
                    m_state := running\<rparr>"
    let ?w' = "?w1\<lparr>calls := calls ?w1 @ [Popen (c_str command) True]\<rparr>"
    have "start command (?e1, ?w1) = Some (?e', ?w')"
      using Some by (simp add: start_idle [OF i])
    then show ?thesis
      using s eq Some
      by (intro exI [of _ ?e1] exI [of _ ?w1] exI [of _ ?e'] exI [of _ ?w'])
        (simp add: live_append)
  qed
  from main hung show ?thesis
    by blast
qed

theorem start_stops_first_witness:
  "(\<exists>e1 w1 e' w'.
      stop (running_on (pipe_of [Received ''hello''] 0),
            (world_of (launch_silent 0) [] True)\<lparr>calls := [Popen ''echo hello'' True]\<rparr>)
        = Some (e1, w1)
    \<and> m_state e1 = idle \<and> m_result e1 = ''hello'' \<and> m_exit_code e1 = 0
    \<and> m_stream e1 = Some (advance 2 (pipe_of [Received ''hello''] 0))
    \<and> calls w1 = [Popen ''echo hello'' True, Pclose]
    \<and> start ''true''
         (running_on (pipe_of [Received ''hello''] 0),
          (world_of (launch_silent 0) [] True)\<lparr>calls := [Popen ''echo hello'' True]\<rparr>)
        = Some (e', w')
    \<and> m_result e' = [] \<and> m_exit_code e' = - 1 \<and> m_state e' = running
    \<and> m_stream e' = Some (pipe_of [] 0)
    \<and> calls w' = [Popen ''echo hello'' True, Pclose, Popen ''true'' True]
    \<and> live (calls w') = 1)
   \<and> start ''true''
        (running_on pipe_hung,
         (world_of (launch_silent 0) [] True)\<lparr>calls := [Popen ''echo hello'' True]\<rparr>)
      = None"
proof -
  let ?p = "pipe_of [Received ''hello''] 0"
  let ?w = "(world_of (launch_silent 0) [] True)\<lparr>calls := [Popen ''echo hello'' True]\<rparr>"
  have h1: "m_stream (running_on ?p) = Some ?p"
    by (simp add: running_on_def)
  have h2: "m_state (running_on ?p) = finished
            \<or> (m_state (running_on ?p) = running \<and> ends_at 1 ?p)"
    by (simp add: running_on_def ends_at_def pipe_of_def)
  have h3: "m_state (running_on pipe_hung) = running
            \<and> m_stream (running_on pipe_hung) = Some pipe_hung
            \<and> (\<forall>k. pending pipe_hung k = Failed EAGAIN)"
    by (simp add: running_on_def pipe_hung_def)
  have l: "live (calls ?w) = 1"
    by simp
  have d: "drained (Suc 0) ?p = ''hello''"
    by (simp add: drained_def pipe_of_def c_str_def)
  have m: "m_result (running_on ?p) = [] \<and> m_state (running_on ?p) = running"
    by (simp add: running_on_def executor_default_def)
  have sp: "spawn (world_of (launch_silent 0) [] True) ''true'' = Some (pipe_of [] 0)"
    and c: "c_str ''true'' = ''true''" and cw: "calls ?w = [Popen ''echo hello'' True]"
    and st: "status ?p = 0"
    by (simp_all add: world_of_def launch_silent_def c_str_def pipe_of_def)
  note t = start_stops_first [OF h1 h2, where w = ?w and command = "''true''"
      and h = "running_on pipe_hung" and q = pipe_hung]
  from t h3 have hung: "start ''true'' (running_on pipe_hung, ?w) = None"
    by blast
  from t obtain e1 w1 e' w' where
    "stop (running_on ?p, ?w) = Some (e1, w1)" "m_state e1 = idle"
    "m_stream e1 = Some (if m_state (running_on ?p) = finished then ?p else advance (Suc 1) ?p)"
    "m_result e1 = m_result (running_on ?p)
        @ (if m_state (running_on ?p) = finished then [] else drained 1 ?p)"
    "m_exit_code e1 = status ?p"
    "calls w1 = calls ?w @ [Pclose]"
    "start ''true'' (running_on ?p, ?w) = Some (e', w')"
    "m_result e' = []" "m_exit_code e' = - 1"
    "m_stream e' = spawn ?w (c_str ''true'')"
    "m_state e' = (if spawn ?w (c_str ''true'') = None then idle else running)"
    "calls w' = calls w1 @ [Popen (c_str ''true'') (spawn ?w (c_str ''true'') \<noteq> None)]"
    "live (calls ?w) = 1 \<longrightarrow>
       live (calls w1) = 0 \<and> live (calls w') = (if m_state e' = idle then 0 else 1)"
    by blast
  then have "stop (running_on ?p, ?w) = Some (e1, w1)
    \<and> m_state e1 = idle \<and> m_result e1 = ''hello'' \<and> m_exit_code e1 = 0
    \<and> m_stream e1 = Some (advance 2 ?p)
    \<and> calls w1 = [Popen ''echo hello'' True, Pclose]
    \<and> start ''true'' (running_on ?p, ?w) = Some (e', w')
    \<and> m_result e' = [] \<and> m_exit_code e' = - 1 \<and> m_state e' = running
    \<and> m_stream e' = Some (pipe_of [] 0)
    \<and> calls w' = [Popen ''echo hello'' True, Pclose, Popen ''true'' True]
    \<and> live (calls w') = 1"
    using l by (simp add: m d sp c cw st numeral_2_eq_2)
  with hung show ?thesis
    by blast
qed

subsection \<open>The executor: \<^verbatim>\<open>result\<close>\<close>

text \<open>
  C3. On an executor whose process has finished (its state is \<open>finished\<close>, or it is
  still \<open>running\<close> on a pipe that comes to its end), \<^verbatim>\<open>result\<close> returns: it gives the
  accumulated output, completed by what the pipe still held, and writes the value of
  \<^verbatim>\<open>pclose\<close> through a non-null \<^verbatim>\<open>exit_code\<close>. Every later call, in the state the
  first one leaves, returns the same output and exit code and leaves that state as it is,
  so any number of calls does.
\<close>

theorem result_idempotent:
  assumes "m_stream e = Some p"
    and "m_state e = finished \<or> (m_state e = running \<and> ends_at n p)"
  shows "\<exists>out e' w'.
           out = m_result e @ (if m_state e = finished then [] else drained n p)
         \<and> result x (e, w) = Some ((out, map_option (\<lambda>_. status p) x), e', w')
         \<and> m_result e' = out \<and> m_exit_code e' = status p
         \<and> (\<forall>y. result y (e', w') = Some ((out, map_option (\<lambda>_. status p) y), e', w'))
         \<and> (\<forall>k. ((\<lambda>r. r \<bind> (\<lambda>(v, ew). result x ew)) ^^ k) (result x (e, w))
                  = result x (e, w))"
proof -
  let ?w1 = "w\<lparr>calls := calls w @ [Pclose]\<rparr>"
  let ?out = "m_result e @ (if m_state e = finished then [] else drained n p)"
  from stop_ends [OF assms] obtain e1 where
    s: "stop (e, w) = Some (e1, ?w1)" and i: "m_state e1 = idle"
    and c: "m_exit_code e1 = status p" and o: "m_result e1 = ?out"
    by blast
  have first: "result x (e, w) = Some ((?out, map_option (\<lambda>_. status p) x), e1, ?w1)"
    using s c o by (cases x) (simp_all add: result_def)
  have later: "result y (e1, ?w1) = Some ((?out, map_option (\<lambda>_. status p) y), e1, ?w1)" for y
    using i c o by (simp add: result_idle)
  have "((\<lambda>r. r \<bind> (\<lambda>(v, ew). result x ew)) ^^ k) (result x (e, w)) = result x (e, w)" for k
    by (induction k) (simp_all add: first later)
  then show ?thesis
    using first later c o by blast
qed

theorem result_idempotent_witness:
  "\<exists>e' w'. result (Some 7) (running_on (pipe_of [Received ''hello''] 0), world_of launch_fails [] True)
       = Some ((''hello'', Some 0), e', w')
     \<and> result (Some 7) (e', w') = Some ((''hello'', Some 0), e', w')
     \<and> result None (e', w') = Some ((''hello'', None), e', w')"
proof -
  let ?p = "pipe_of [Received ''hello''] 0"
  have h1: "m_stream (running_on ?p) = Some ?p"
    by (simp add: running_on_def)
  have h2: "m_state (running_on ?p) = finished
            \<or> (m_state (running_on ?p) = running \<and> ends_at 1 ?p)"
    by (simp add: running_on_def ends_at_def pipe_of_def)
  have d: "drained 1 ?p = ''hello''"
    by (simp add: drained_def pipe_of_def c_str_def)
  have m: "m_result (running_on ?p) = [] \<and> m_state (running_on ?p) = running"
    by (simp add: running_on_def executor_default_def)
  from result_idempotent [OF h1 h2, of "Some 7" "world_of launch_fails [] True"]
  obtain e' w' where
    "result (Some 7) (running_on ?p, world_of launch_fails [] True)
       = Some ((''hello'', Some 0), e', w')"
    and "\<forall>y. result y (e', w') = Some ((''hello'', map_option (\<lambda>_. 0) y), e', w')"
    using d m by (auto simp: pipe_of_def)
  then show ?thesis
    by (intro exI [of _ e'] exI [of _ w']) simp
qed

subsection \<open>Failed launches\<close>

lemma stop_returns:
  assumes "m_state e = idle
           \<or> (m_stream e = Some p
               \<and> (m_state e = finished \<or> (m_state e = running \<and> ends_at n p)))"
  shows "\<exists>e1 w1. stop (e, w) = Some (e1, w1) \<and> m_state e1 = idle \<and> spawn w1 = spawn w"
proof (cases "m_state e = idle")
  case True
  then show ?thesis
    by (simp add: stop_idle)
next
  case False
  with assms have "m_stream e = Some p"
    and "m_state e = finished \<or> (m_state e = running \<and> ends_at n p)"
    by auto
  from stop_ends [OF this, of w] show ?thesis
    by auto
qed

text \<open>
  C7, as the code has it. From an executor that is idle, finished, or running a process
  that comes to an end: when \<^verbatim>\<open>popen\<close> fails, \<^verbatim>\<open>start\<close> returns normally and leaves
  the executor idle, with empty output and exit code -1, and \<^verbatim>\<open>result\<close> then gives
  the empty text and -1. When the command is launched and its process exits at once
  without output, \<^verbatim>\<open>ready\<close> is true and \<^verbatim>\<open>result\<close> gives the empty text too, but
  the exit code is the value of \<^verbatim>\<open>pclose\<close>: the two are told apart unless that value
  is -1.
\<close>

theorem failed_launch:
  assumes "m_state e = idle
           \<or> (m_stream e = Some p
               \<and> (m_state e = finished \<or> (m_state e = running \<and> ends_at n p)))"
  shows "(spawn w (c_str command) = None \<longrightarrow>
           (\<exists>e' w'. start command (e, w) = Some (e', w')
              \<and> m_state e' = idle \<and> m_result e' = [] \<and> m_exit_code e' = - 1
              \<and> ready e' = (True, e')
              \<and> result x (e', w') = Some (([], map_option (\<lambda>_. - 1) x), e', w')))
       \<and> (spawn w (c_str command) = Some q \<and> pending q 0 = Received [] \<longrightarrow>
           (\<exists>e' w' e'' w''. start command (e, w) = Some (e', w')
              \<and> m_state e' = running \<and> m_result e' = [] \<and> m_exit_code e' = - 1
              \<and> fst (ready e')
              \<and> result x (e', w') = Some (([], map_option (\<lambda>_. status q) x), e'', w'')
              \<and> m_state e'' = idle))"
proof -
  from stop_returns [OF assms, of w] obtain e1 w1 where
    s: "stop (e, w) = Some (e1, w1)" and i: "m_state e1 = idle" and sp: "spawn w1 = spawn w"
    by blast
  have eq: "start command (e, w) = start command (e1, w1)"
    using s i by (simp add: start_def stop_idle)
  have a: "\<exists>e' w'. start command (e, w) = Some (e', w')
              \<and> m_state e' = idle \<and> m_result e' = [] \<and> m_exit_code e' = - 1
              \<and> ready e' = (True, e')
              \<and> result x (e', w') = Some (([], map_option (\<lambda>_. - 1) x), e', w')"
    if none: "spawn w (c_str command) = None"
  proof -
    let ?e' = "e1\<lparr>m_result := [], m_exit_code := - 1, m_stream := None\<rparr>"
    let ?w' = "w1\<lparr>calls := calls w1 @ [Popen (c_str command) False]\<rparr>"
    have "start command (e, w) = Some (?e', ?w')"
      using eq i none sp by (simp add: start_idle)
    moreover have "ready ?e' = (True, ?e')"
      using i by (simp add: ready_not_running)
    moreover have "result x (?e', ?w') = Some (([], map_option (\<lambda>_. - 1) x), ?e', ?w')"
      using i by (simp add: result_idle)
    ultimately show ?thesis
      using i by (intro exI [of _ ?e'] exI [of _ ?w']) simp
  qed
  have b: "\<exists>e' w' e'' w''. start command (e, w) = Some (e', w')
              \<and> m_state e' = running \<and> m_result e' = [] \<and> m_exit_code e' = - 1
              \<and> fst (ready e')
              \<and> result x (e', w') = Some (([], map_option (\<lambda>_. status q) x), e'', w'')
              \<and> m_state e'' = idle"
    if some: "spawn w (c_str command) = Some q" and eof: "pending q 0 = Received []"
  proof -
    let ?e' = "e1\<lparr>m_result := [], m_exit_code := - 1, m_stream := Some q, m_state := running\<rparr>"
    let ?w' = "w1\<lparr>calls := calls w1 @ [Popen (c_str command) True]\<rparr>"
    let ?e'' = "?e'\<lparr>m_stream := Some (advance (Suc 0) q), m_result := m_result ?e' @ drained 0 q,
                     m_exit_code := status q, m_state := idle\<rparr>"
    let ?w'' = "?w'\<lparr>calls := calls ?w' @ [Pclose]\<rparr>"
    have e0: "ends_at 0 q"
      using eof by (simp add: ends_at_0)
    have st: "start command (e, w) = Some (?e', ?w')"
      using eq i some sp by (simp add: start_idle)
    have rd: "fst (ready ?e')"
      using eof by (simp add: ready_running)
    have "stop (?e', ?w') = Some (?e'', ?w'')"
      using e0 by (intro stop_running) simp_all
    then have "result x (?e', ?w') = Some (([], map_option (\<lambda>_. status q) x), ?e'', ?w'')"
      by (cases x) (simp_all add: result_def)
    with st rd show ?thesis
      by (intro exI [of _ ?e'] exI [of _ ?w'] exI [of _ ?e''] exI [of _ ?w'']) simp
  qed
  from a b show ?thesis
    by blast
qed

theorem failed_launch_witness:
  "(\<exists>e' w'. start ''zenity'' (executor_default, world_of launch_fails [] True) = Some (e', w')
      \<and> m_state e' = idle \<and> m_result e' = [] \<and> m_exit_code e' = - 1
      \<and> result (Some 0) (e', w') = Some (([], Some (- 1)), e', w'))
   \<and> (\<exists>e' w' e'' w''.
        start ''zenity'' (executor_default, world_of (launch_silent 256) [] True) = Some (e', w')
      \<and> result (Some 0) (e', w') = Some (([], Some 256), e'', w''))"
proof -
  have h: "m_state executor_default = idle
           \<or> (m_stream executor_default = Some pipe_hung
               \<and> (m_state executor_default = finished
                   \<or> (m_state executor_default = running \<and> ends_at 0 pipe_hung)))"
    by (simp add: executor_default_def)
  have c: "c_str ''zenity'' = ''zenity''"
    by (simp add: c_str_def)
  have 1: "spawn (world_of launch_fails [] True) (c_str ''zenity'') = None"
    by (simp add: world_of_def launch_fails_def)
  have 2: "spawn (world_of (launch_silent 256) [] True) (c_str ''zenity'') = Some (pipe_of [] 256)
           \<and> pending (pipe_of [] 256) 0 = Received []"
    by (simp add: world_of_def launch_silent_def pipe_of_def)
  have s: "status (pipe_of [] 256) = 256"
    by (simp add: pipe_of_def)
  show ?thesis
    using failed_launch [OF h, where w = "world_of launch_fails [] True"
          and command = "''zenity''" and x = "Some 0"] 1
      failed_launch [OF h, where w = "world_of (launch_silent 256) [] True"
          and command = "''zenity''" and q = "pipe_of [] 256" and x = "Some 0"] 2 s
    by (simp only: option.map) blast
qed

text \<open>
  C7 as stated fails: after a failed launch \<^verbatim>\<open>result\<close> gives exit code -1, after a
  process that exits at once with status 0 and no output it gives 0.
\<close>

theorem failed_launch_distinguished_counterexample:
  "map_option fst (start ''true'' (executor_default, world_of launch_fails [] True)
                     \<bind> result (Some 0)) = Some ([], Some (- 1))
   \<and> map_option fst (start ''true'' (executor_default, world_of (launch_silent 0) [] True)
                     \<bind> result (Some 0)) = Some ([], Some 0)"
proof -
  have i: "m_state executor_default = idle"
    by (simp add: executor_default_def)
  have c: "c_str ''true'' = ''true''"
    by (simp add: c_str_def)
  have "map_option fst (start ''true'' (executor_default, world_of launch_fails [] True)
                     \<bind> result (Some 0)) = Some ([], Some (- 1))"
    by (simp add: start_idle [OF i] c world_of_def launch_fails_def result_idle i)
  moreover have "map_option fst (start ''true'' (executor_default, world_of (launch_silent 0) [] True)
                     \<bind> result (Some 0)) = Some ([], Some 0)"
    by (simp add: start_idle [OF i] c world_of_def launch_silent_def result_def
        stop_running [where n = 0] ends_at_pipe_of_Nil i)
      (simp add: pipe_of_def)
  ultimately show ?thesis
    by blast
qed


subsection \<open>The presence probe and the choice of the helper\<close>

lemma execute_runs:
  assumes "spawn w (c_str command) = Some p" and "ends_at n p"
  shows "execute command x w =
     Some ((drained n p, map_option (\<lambda>_. status p) x),
           w\<lparr>calls := calls w @ [Popen (c_str command) True, Pclose],
             cerr := (if flags w is_verbose
                      then cerr w @ ''pfd: '' @ command @ [CHR 0x0A] else cerr w)\<rparr>)"
proof -
  define w1 where "w1 = (if flags w is_verbose
      then w\<lparr>cerr := cerr w @ ''pfd: '' @ command @ [CHR 0x0A]\<rparr> else w)"
  let ?e = "executor_default\<lparr>m_result := [], m_exit_code := - 1, m_stream := Some p,
                              m_state := running\<rparr>"
  let ?w2 = "w1\<lparr>calls := calls w1 @ [Popen (c_str command) True]\<rparr>"
  let ?e3 = "?e\<lparr>m_stream := Some (advance (Suc n) p), m_result := m_result ?e @ drained n p,
                  m_exit_code := status p, m_state := idle\<rparr>"
  let ?w3 = "?w2\<lparr>calls := calls ?w2 @ [Pclose]\<rparr>"
  have sp: "spawn w1 (c_str command) = Some p"
    using assms(1) by (simp add: w1_def)
  have 1: "start command (executor_default, w1) = Some (?e, ?w2)"
    using sp by (simp add: start_idle executor_default_def)
  have 2: "stop (?e, ?w2) = Some (?e3, ?w3)"
    using assms(2) by (intro stop_running) simp_all
  have 3: "result x (?e, ?w2) = Some ((drained n p, map_option (\<lambda>_. status p) x), ?e3, ?w3)"
    using 2 by (cases x) (simp_all add: result_def executor_default_def)
  have 4: "stop (?e3, ?w3) = Some (?e3, ?w3)"
    by (simp add: stop_idle)
  have "execute command x w = Some ((drained n p, map_option (\<lambda>_. status p) x), ?w3)"
    using 1 3 4 by (simp add: execute_def w1_def [symmetric])
  then show ?thesis
    by (simp add: w1_def)
qed

lemma execute_fails:
  assumes "spawn w (c_str command) = None"
  shows "execute command x w =
     Some (([], map_option (\<lambda>_. - 1) x),
           w\<lparr>calls := calls w @ [Popen (c_str command) False],
             cerr := (if flags w is_verbose
                      then cerr w @ ''pfd: '' @ command @ [CHR 0x0A] else cerr w)\<rparr>)"
proof -
  define w1 where "w1 = (if flags w is_verbose
      then w\<lparr>cerr := cerr w @ ''pfd: '' @ command @ [CHR 0x0A]\<rparr> else w)"
  let ?e = "executor_default\<lparr>m_result := [], m_exit_code := - 1, m_stream := None\<rparr>"
  let ?w2 = "w1\<lparr>calls := calls w1 @ [Popen (c_str command) False]\<rparr>"
  have sp: "spawn w1 (c_str command) = None"
    using assms by (simp add: w1_def)
  have i: "m_state ?e = idle"
    by (simp add: executor_default_def)
  have 1: "start command (executor_default, w1) = Some (?e, ?w2)"
    using sp by (simp add: start_idle executor_default_def)
  have 3: "result x (?e, ?w2) = Some (([], map_option (\<lambda>_. - 1) x), ?e, ?w2)"
    using i by (simp add: result_idle)
  have 4: "stop (?e, ?w2) = Some (?e, ?w2)"
    using i by (simp add: stop_idle)
  have "execute command x w = Some (([], map_option (\<lambda>_. - 1) x), ?w2)"
    using 1 3 4 by (simp add: execute_def w1_def [symmetric])
  then show ?thesis
    by (simp add: w1_def)
qed

lemma check_program_runs:
  assumes "spawn w (which_command program) = Some p" and "ends_at n p"
  shows "check_program program w = Some (status p = 0, probed program True w)"
  using assms
  by (simp add: check_program_def which_command_def probed_def
      execute_runs [where p = p and n = n])

lemma check_program_fails:
  assumes "spawn w (which_command program) = None"
  shows "check_program program w = Some (False, probed program False w)"
  using assms
  by (simp add: check_program_def which_command_def probed_def execute_fails)

lemma probed_fields:
  "spawn (probed program b w) = spawn w"
  "flags (probed program b w) = flags w"
  "analysed (probed program b w) = analysed w"
  "calls (probed program b w)
     = calls w @ Popen (which_command program) b # (if b then [Pclose] else [])"
  by (simp_all add: probed_def)

lemma dialog_probes:
  assumes z: "spawn w (which_command ''zenity'') = Some pz" "ends_at nz pz"
    and m: "spawn w (which_command ''matedialog'') = Some pm" "ends_at nm pm"
    and q: "spawn w (which_command ''qarma'') = Some pq" "ends_at nq pq"
    and k: "spawn w (which_command ''kdialog'') = Some pk" "ends_at nk pk"
  shows "\<exists>w'. dialog True w = Some w' \<and> analysed w' \<and> spawn w' = spawn w
           \<and> flags w' = (flags w)(has_zenity := status pz = 0, has_matedialog := status pm = 0,
                                    has_qarma := status pq = 0, has_kdialog := status pk = 0)"
proof -
  define w1 where "w1 = (probed ''zenity'' True w)
      \<lparr>flags := (flags (probed ''zenity'' True w))(has_zenity := status pz = 0)\<rparr>"
  define w2 where "w2 = (probed ''matedialog'' True w1)
      \<lparr>flags := (flags (probed ''matedialog'' True w1))(has_matedialog := status pm = 0)\<rparr>"
  define w3 where "w3 = (probed ''qarma'' True w2)
      \<lparr>flags := (flags (probed ''qarma'' True w2))(has_qarma := status pq = 0)\<rparr>"
  define w4 where "w4 = (probed ''kdialog'' True w3)
      \<lparr>flags := (flags (probed ''kdialog'' True w3))(has_kdialog := status pk = 0),
        analysed := True\<rparr>"
  have s1: "spawn w1 = spawn w" and s2: "spawn w2 = spawn w" and s3: "spawn w3 = spawn w"
    by (simp_all add: w1_def w2_def w3_def probed_fields)
  have c1: "check_program ''zenity'' w = Some (status pz = 0, probed ''zenity'' True w)"
    using z by (rule check_program_runs)
  have c2: "check_program ''matedialog'' w1 = Some (status pm = 0, probed ''matedialog'' True w1)"
    using m by (intro check_program_runs) (simp_all add: s1)
  have c3: "check_program ''qarma'' w2 = Some (status pq = 0, probed ''qarma'' True w2)"
    using q by (intro check_program_runs) (simp_all add: s2)
  have c4: "check_program ''kdialog'' w3 = Some (status pk = 0, probed ''kdialog'' True w3)"
    using k by (intro check_program_runs) (simp_all add: s3)
  have "dialog True w = Some w4"
    unfolding dialog_def
    by (simp add: c1 w1_def [symmetric] c2 w2_def [symmetric] c3 w3_def [symmetric] c4
        w4_def [symmetric])
  moreover have "analysed w4" and "spawn w4 = spawn w"
    by (simp_all add: w4_def s3 probed_fields)
  moreover have "flags w4 = (flags w)(has_zenity := status pz = 0, has_matedialog := status pm = 0,
                                    has_qarma := status pq = 0, has_kdialog := status pk = 0)"
    by (simp add: w4_def w3_def w2_def w1_def probed_fields)
  ultimately show ?thesis
    by blast
qed

text \<open>
  C8. The probe of a program runs the command \<^verbatim>\<open>which <program> 2>/dev/null\<close> (one
  \<^verbatim>\<open>popen\<close> and one \<^verbatim>\<open>pclose\<close> in the trace), returns when the process comes to an
  end, and answers true exactly when \<^verbatim>\<open>pclose\<close> returned 0; so it answers false for a
  program that is absent, and also when the probe cannot be launched. A scan records
  the four answers in the flags. \<^verbatim>\<open>desktop_helper\<close> is the first detected helper in
  the order zenity, matedialog, qarma, kdialog, and \<^verbatim>\<open>echo\<close> when none is detected.
\<close>

theorem probe_and_selection:
  "(spawn w (which_command program) = Some p \<and> ends_at n p \<longrightarrow>
      (\<exists>w'. check_program program w = Some (status p = 0, w')
         \<and> calls w' = calls w @ [Popen (which_command program) True, Pclose]))
   \<and> (spawn w (which_command program) = None \<longrightarrow>
      (\<exists>w'. check_program program w = Some (False, w')))
   \<and> (spawn w (which_command ''zenity'') = Some pz \<and> ends_at nz pz
      \<and> spawn w (which_command ''matedialog'') = Some pm \<and> ends_at nm pm
      \<and> spawn w (which_command ''qarma'') = Some pq \<and> ends_at nq pq
      \<and> spawn w (which_command ''kdialog'') = Some pk \<and> ends_at nk pk \<longrightarrow>
      (\<exists>w'. dialog True w = Some w' \<and> analysed w'
         \<and> flags w' = (flags w)(has_zenity := status pz = 0, has_matedialog := status pm = 0,
                                  has_qarma := status pq = 0, has_kdialog := status pk = 0)))
   \<and> desktop_helper fl =
       first_detected fl [(has_zenity, ''zenity''), (has_matedialog, ''matedialog''),
                          (has_qarma, ''qarma''), (has_kdialog, ''kdialog'')] ''echo''"
proof (intro conjI impI)
  assume "spawn w (which_command program) = Some p \<and> ends_at n p"
  then show "\<exists>w'. check_program program w = Some (status p = 0, w')
         \<and> calls w' = calls w @ [Popen (which_command program) True, Pclose]"
    by (simp add: check_program_runs [where p = p and n = n] probed_fields)
next
  assume "spawn w (which_command program) = None"
  then show "\<exists>w'. check_program program w = Some (False, w')"
    by (simp add: check_program_fails)
next
  assume "spawn w (which_command ''zenity'') = Some pz \<and> ends_at nz pz
      \<and> spawn w (which_command ''matedialog'') = Some pm \<and> ends_at nm pm
      \<and> spawn w (which_command ''qarma'') = Some pq \<and> ends_at nq pq
      \<and> spawn w (which_command ''kdialog'') = Some pk \<and> ends_at nk pk"
  then show "\<exists>w'. dialog True w = Some w' \<and> analysed w'
         \<and> flags w' = (flags w)(has_zenity := status pz = 0, has_matedialog := status pm = 0,
                                  has_qarma := status pq = 0, has_kdialog := status pk = 0)"
    using dialog_probes [of w pz nz pm nm pq nq pk nk] by blast
next
  show "desktop_helper fl =
       first_detected fl [(has_zenity, ''zenity''), (has_matedialog, ''matedialog''),
                          (has_qarma, ''qarma''), (has_kdialog, ''kdialog'')] ''echo''"
    by (simp add: desktop_helper_def)
qed


theorem probe_and_selection_witness:
  "(\<exists>w'. check_program ''kdialog'' (world_of (which_finds [''kdialog'']) [] False)
            = Some (True, w'))
   \<and> (\<exists>w'. check_program ''zenity'' (world_of (which_finds [''kdialog'']) [] False)
            = Some (False, w'))
   \<and> (\<exists>w'. check_program ''zenity'' (world_of launch_fails [] False) = Some (False, w'))
   \<and> (\<exists>w'. dialog True (world_of (which_finds [''kdialog'']) [] False) = Some w'
            \<and> desktop_helper (flags w') = ''kdialog'')
   \<and> (\<exists>w'. dialog True (world_of (which_finds []) [] False) = Some w'
            \<and> desktop_helper (flags w') = ''echo'')"
proof -
  let ?found = "pipe_of [Received ''/usr/bin/x''] 0"
  let ?absent = "pipe_of [] 256"
  let ?w = "world_of (which_finds [''kdialog'']) [] False"
  let ?v = "world_of (which_finds []) [] False"
  have ef: "ends_at 1 ?found" and ea: "ends_at 0 ?absent"
    by (simp_all add: ends_at_def pipe_of_def)
  have sf: "status ?found = 0" and sa: "status ?absent = 256"
    by (simp_all add: pipe_of_def)
  have wk: "spawn ?w (which_command ''kdialog'') = Some ?found"
    and wz: "spawn ?w (which_command ''zenity'') = Some ?absent"
    and wm: "spawn ?w (which_command ''matedialog'') = Some ?absent"
    and wq: "spawn ?w (which_command ''qarma'') = Some ?absent"
    by (simp_all add: world_of_def which_finds_def which_command_def c_str_def)
  have vk: "spawn ?v (which_command ''kdialog'') = Some ?absent"
    and vz: "spawn ?v (which_command ''zenity'') = Some ?absent"
    and vm: "spawn ?v (which_command ''matedialog'') = Some ?absent"
    and vq: "spawn ?v (which_command ''qarma'') = Some ?absent"
    by (simp_all add: world_of_def which_finds_def)
  have lf: "spawn (world_of launch_fails [] False) (which_command ''zenity'') = None"
    by (simp add: world_of_def launch_fails_def)
  have "\<exists>w'. check_program ''kdialog'' ?w = Some (status ?found = 0, w')
           \<and> calls w' = calls ?w @ [Popen (which_command ''kdialog'') True, Pclose]"
    using probe_and_selection [where w = ?w and program = "''kdialog''" and p = ?found
        and n = 1] wk ef
    by blast
  then have 1: "\<exists>w'. check_program ''kdialog'' ?w = Some (True, w')"
    unfolding sf by auto
  have "\<exists>w'. check_program ''zenity'' ?w = Some (status ?absent = 0, w')
           \<and> calls w' = calls ?w @ [Popen (which_command ''zenity'') True, Pclose]"
    using probe_and_selection [where w = ?w and program = "''zenity''" and p = ?absent
        and n = 0] wz ea
    by blast
  then have 2: "\<exists>w'. check_program ''zenity'' ?w = Some (False, w')"
    unfolding sa by auto
  have 3: "\<exists>w'. check_program ''zenity'' (world_of launch_fails [] False) = Some (False, w')"
    using probe_and_selection [where w = "world_of launch_fails [] False"
        and program = "''zenity''"] lf
    by blast
  have "\<exists>w'. dialog True ?w = Some w' \<and> analysed w'
         \<and> flags w' = (flags ?w)(has_zenity := status ?absent = 0,
              has_matedialog := status ?absent = 0, has_qarma := status ?absent = 0,
              has_kdialog := status ?found = 0)"
    using probe_and_selection [where w = ?w and pz = ?absent and nz = 0 and pm = ?absent
        and nm = 0 and pq = ?absent and nq = 0 and pk = ?found and nk = 1]
      wz wm wq wk ea ef
    by blast
  then obtain w4 where d4: "dialog True ?w = Some w4"
    and f4: "flags w4 = (flags ?w)(has_zenity := False, has_matedialog := False,
                                   has_qarma := False, has_kdialog := True)"
    unfolding sf sa by auto
  have "desktop_helper (flags w4) = ''kdialog''"
    by (simp add: f4 desktop_helper_def)
  with d4 have 4: "\<exists>w'. dialog True ?w = Some w' \<and> desktop_helper (flags w') = ''kdialog''"
    by blast
  have "\<exists>w'. dialog True ?v = Some w' \<and> analysed w'
         \<and> flags w' = (flags ?v)(has_zenity := status ?absent = 0,
              has_matedialog := status ?absent = 0, has_qarma := status ?absent = 0,
              has_kdialog := status ?absent = 0)"
    using probe_and_selection [where w = ?v and pz = ?absent and nz = 0 and pm = ?absent
        and nm = 0 and pq = ?absent and nq = 0 and pk = ?absent and nk = 0]
      vz vm vq vk ea
    by blast
  then obtain w5 where d5: "dialog True ?v = Some w5"
    and f5: "flags w5 = (flags ?v)(has_zenity := False, has_matedialog := False,
                                   has_qarma := False, has_kdialog := False)"
    unfolding sa by auto
  have "desktop_helper (flags w5) = ''echo''"
    by (simp add: f5 desktop_helper_def)
  with d5 have 5: "\<exists>w'. dialog True ?v = Some w' \<and> desktop_helper (flags w') = ''echo''"
    by blast
  from 1 2 3 4 5 show ?thesis
    by blast
qed

subsection \<open>Notifications\<close>

text \<open>
  C9. A notification constructed with the icon \<open>question\<close> behaves as one constructed
  with \<open>info\<close>: the same command, and the same run of the constructor in every world.
  Whatever the icon, the icon argument of the command is never \<^verbatim>\<open>question\<close>: the
  command does not begin with the helper followed by
  \<^verbatim>\<open>--notification --window-icon question\<close> (zenity family) nor by
  \<^verbatim>\<open>--icon question\<close> (kdialog).
\<close>

theorem notify_question_is_info:
  "notify title message' question w = notify title message' info w
   \<and> notify_command fl title message' question = notify_command fl title message' info
   \<and> \<not> prefix (desktop_helper fl @ '' --notification --window-icon question'')
               (notify_command fl title message' icon)
   \<and> \<not> prefix (desktop_helper fl @ '' --icon question'')
               (notify_command fl title message' icon)"
proof -
  have same: "notify_command fl' title message' question = notify_command fl' title message' info"
    for fl'
    by (simp add: notify_command_def)
  have "\<not> prefix (desktop_helper fl @ '' --notification --window-icon question'')
               (notify_command fl title message' icon)"
    by (cases icon) (simp_all add: notify_command_def)
  moreover have "\<not> prefix (desktop_helper fl @ '' --icon question'')
               (notify_command fl title message' icon)"
    by (cases icon) (simp_all add: notify_command_def)
  ultimately show ?thesis
    using same by (simp add: notify_def)
qed

subsection \<open>File dialogs\<close>

text \<open>
  C10. With a helper of the zenity family detected, the command of a file dialog is the
  helper followed by the file-selection arguments. Otherwise it is the bare word
  \<^verbatim>\<open>kdialog\<close> when kdialog is detected and the bare word \<^verbatim>\<open>echo\<close> when nothing is, and
  that word alone is what \<^verbatim>\<open>file_dialog\<close>, and so \<^verbatim>\<open>open_file\<close>, \<^verbatim>\<open>save_file\<close> and
  \<^verbatim>\<open>select_folder\<close>, hand to \<^verbatim>\<open>start\<close> and to \<^verbatim>\<open>popen\<close>.
\<close>

theorem file_dialog_bare_helper:
  "(is_zenity fl \<longrightarrow>
      file_dialog_command fl in_type title default_path filter' multiselect =
        desktop_helper fl
        @ '' --file-selection --filename='' @ shell_quote default_path
        @ '' --title '' @ shell_quote title
        @ '' --file-filter='' @ shell_quote filter'
        @ (if multiselect then '' --multiple'' else [])
        @ (if in_type = type_save then '' --save'' else [])
      \<and> desktop_helper fl \<noteq> ''kdialog'' \<and> desktop_helper fl \<noteq> ''echo'')
   \<and> (\<not> is_zenity fl \<longrightarrow>
      file_dialog_command fl in_type title default_path filter' multiselect =
        (if fl has_kdialog then ''kdialog'' else ''echo''))
   \<and> (dialog False w = Some v \<and> \<not> is_zenity (flags v) \<longrightarrow>
      file_dialog in_type title default_path filter' multiselect w =
        start (if flags v has_kdialog then ''kdialog'' else ''echo'') (executor_default, v)
      \<and> open_file title default_path filter' multiselect w =
        start (if flags v has_kdialog then ''kdialog'' else ''echo'') (executor_default, v)
      \<and> save_file title default_path filter' w =
        start (if flags v has_kdialog then ''kdialog'' else ''echo'') (executor_default, v)
      \<and> select_folder title default_path w =
        start (if flags v has_kdialog then ''kdialog'' else ''echo'') (executor_default, v)
      \<and> (\<exists>e' w'. start (if flags v has_kdialog then ''kdialog'' else ''echo'')
                    (executor_default, v) = Some (e', w')
            \<and> (calls w' = calls v @ [Popen (if flags v has_kdialog then ''kdialog'' else ''echo'') True]
               \<or> calls w' = calls v @ [Popen (if flags v has_kdialog then ''kdialog'' else ''echo'') False])))"
proof -
  have bare: "file_dialog_command fl' ty t d f m = (if fl' has_kdialog then ''kdialog'' else ''echo'')"
    if "\<not> is_zenity fl'" for fl' ty t d f m
    using that by (simp add: file_dialog_command_def desktop_helper_def is_zenity_def)
  have i: "m_state executor_default = idle"
    by (simp add: executor_default_def)
  have ck: "c_str ''kdialog'' = ''kdialog''" and ce: "c_str ''echo'' = ''echo''"
    by (simp_all add: c_str_def)
  have 1: "is_zenity fl \<longrightarrow>
      file_dialog_command fl in_type title default_path filter' multiselect =
        desktop_helper fl
        @ '' --file-selection --filename='' @ shell_quote default_path
        @ '' --title '' @ shell_quote title
        @ '' --file-filter='' @ shell_quote filter'
        @ (if multiselect then '' --multiple'' else [])
        @ (if in_type = type_save then '' --save'' else [])
      \<and> desktop_helper fl \<noteq> ''kdialog'' \<and> desktop_helper fl \<noteq> ''echo''"
    by (simp add: file_dialog_command_def desktop_helper_def is_zenity_def)
  have 3: "\<exists>e' w'. start (if flags v has_kdialog then ''kdialog'' else ''echo'')
                    (executor_default, v) = Some (e', w')
            \<and> (calls w' = calls v @ [Popen (if flags v has_kdialog then ''kdialog'' else ''echo'') True]
               \<or> calls w' = calls v @ [Popen (if flags v has_kdialog then ''kdialog'' else ''echo'') False])"
    by (simp add: start_idle [OF i] ck ce split: option.split)
  show ?thesis
    using 1 3
    by (simp add: bare file_dialog_def open_file_def save_file_def select_folder_def)
qed

theorem file_dialog_bare_helper_witness:
  "file_dialog_command (flags_of [has_zenity, has_kdialog]) type_save ''Save'' ''/tmp'' ''*.txt'' False
     = ''zenity --file-selection --filename='' @ shell_quote ''/tmp''
       @ '' --title '' @ shell_quote ''Save''
       @ '' --file-filter='' @ shell_quote ''*.txt'' @ '' --save''
   \<and> file_dialog_command (flags_of [has_kdialog]) type_open ''Open'' ''/tmp'' ''*.txt'' True
     = ''kdialog''
   \<and> open_file ''Open'' ''/tmp'' ''*.txt'' True (world_of (launch_silent 0) [has_kdialog] True)
     = start ''kdialog'' (executor_default, world_of (launch_silent 0) [has_kdialog] True)
   \<and> select_folder ''Pick'' ''/tmp'' (world_of (launch_silent 0) [] True)
     = start ''echo'' (executor_default, world_of (launch_silent 0) [] True)"
proof -
  let ?wk = "world_of (launch_silent 0) [has_kdialog] True"
  let ?we = "world_of (launch_silent 0) [] True"
  have z: "is_zenity (flags_of [has_zenity, has_kdialog])"
    and nz: "\<not> is_zenity (flags_of [has_kdialog])"
    and hz: "desktop_helper (flags_of [has_zenity, has_kdialog]) = ''zenity''"
    and hk: "flags_of [has_kdialog] has_kdialog"
    by (simp_all add: is_zenity_def flags_of_def desktop_helper_def)
  have dk: "dialog False ?wk = Some ?wk \<and> \<not> is_zenity (flags ?wk)"
    and de: "dialog False ?we = Some ?we \<and> \<not> is_zenity (flags ?we)"
    by (simp_all add: dialog_def world_of_def is_zenity_def flags_of_def)
  have fk: "flags ?wk has_kdialog" and fe: "\<not> flags ?we has_kdialog"
    by (simp_all add: world_of_def flags_of_def)
  show ?thesis
    using file_dialog_bare_helper [where fl = "flags_of [has_zenity, has_kdialog]"
        and in_type = type_save and title = "''Save''" and default_path = "''/tmp''"
        and filter' = "''*.txt''" and multiselect = False] z hz
      file_dialog_bare_helper [where fl = "flags_of [has_kdialog]"
        and in_type = type_open and title = "''Open''" and default_path = "''/tmp''"
        and filter' = "''*.txt''" and multiselect = True and w = ?wk and v = ?wk] nz hk dk fk
      file_dialog_bare_helper [where fl = "flags_of [has_kdialog]"
        and title = "''Pick''" and default_path = "''/tmp''" and w = ?we and v = ?we] de fe
    by simp
qed

subsection \<open>Message boxes\<close>

text \<open>
  C6, as the code has it. For the buttons \<open>yes_no_cancel\<close> and the icon \<open>warning\<close>:
  with kdialog the command is \<^verbatim>\<open>kdialog --warningyesnocancel\<close> followed by the quoted
  text and title, so it holds the button-set name \<^verbatim>\<open>yesnocancel\<close> and the icon name
  \<^verbatim>\<open>warning\<close>; with a helper of the zenity family the buttons are rendered as a list
  of \<^verbatim>\<open>'Yes'\<close> and \<^verbatim>\<open>'No'\<close>, no button-set name is written, and the icon is
  \<^verbatim>\<open>--icon-name=dialog-warning\<close>; with no helper the command is the bare \<^verbatim>\<open>echo\<close>.
\<close>

theorem message_yes_no_cancel_warning:
  "(is_zenity fl \<longrightarrow>
      message_command fl title text yes_no_cancel warning =
        desktop_helper fl
        @ '' --list --column '' @ [CHR 0x27, CHR 0x27] @ '' --hide-header ''
        @ [CHR 0x27] @ ''Yes'' @ [CHR 0x27] @ '' '' @ [CHR 0x27] @ ''No'' @ [CHR 0x27]
        @ '' --title '' @ shell_quote title
        @ '' --width 300 --height 0''
        @ '' --text '' @ shell_quote text
        @ '' --icon-name=dialog-warning''
      \<and> sublist ''--icon-name=dialog-warning''
            (message_command fl title text yes_no_cancel warning))
   \<and> (\<not> is_zenity fl \<and> is_kdialog fl \<longrightarrow>
      message_command fl title text yes_no_cancel warning =
        ''kdialog --warningyesnocancel '' @ shell_quote text @ '' --title '' @ shell_quote title
      \<and> sublist ''yesnocancel'' (message_command fl title text yes_no_cancel warning)
      \<and> sublist ''warning'' (message_command fl title text yes_no_cancel warning))
   \<and> (\<not> is_zenity fl \<and> \<not> is_kdialog fl \<longrightarrow>
      message_command fl title text yes_no_cancel warning = ''echo'')"
proof (intro conjI impI)
  assume z: "is_zenity fl"
  then show c: "message_command fl title text yes_no_cancel warning =
        desktop_helper fl
        @ '' --list --column '' @ [CHR 0x27, CHR 0x27] @ '' --hide-header ''
        @ [CHR 0x27] @ ''Yes'' @ [CHR 0x27] @ '' '' @ [CHR 0x27] @ ''No'' @ [CHR 0x27]
        @ '' --title '' @ shell_quote title
        @ '' --width 300 --height 0''
        @ '' --text '' @ shell_quote text
        @ '' --icon-name=dialog-warning''"
    by (simp add: message_command_def)
  have "message_command fl title text yes_no_cancel warning =
        (desktop_helper fl
         @ '' --list --column '' @ [CHR 0x27, CHR 0x27] @ '' --hide-header ''
         @ [CHR 0x27] @ ''Yes'' @ [CHR 0x27] @ '' '' @ [CHR 0x27] @ ''No'' @ [CHR 0x27]
         @ '' --title '' @ shell_quote title
         @ '' --width 300 --height 0''
         @ '' --text '' @ shell_quote text @ '' '')
        @ ''--icon-name=dialog-warning'' @ []"
    by (simp add: c)
  then show "sublist ''--icon-name=dialog-warning''
            (message_command fl title text yes_no_cancel warning)"
    unfolding sublist_def by blast
next
  assume k: "\<not> is_zenity fl \<and> is_kdialog fl"
  then have h: "desktop_helper fl = ''kdialog''"
    by (simp add: desktop_helper_def is_zenity_def is_kdialog_def)
  from k h show c: "message_command fl title text yes_no_cancel warning =
        ''kdialog --warningyesnocancel '' @ shell_quote text @ '' --title '' @ shell_quote title"
    by (simp add: message_command_def)
  have "message_command fl title text yes_no_cancel warning =
        ''kdialog --warning'' @ ''yesnocancel''
        @ ('' '' @ shell_quote text @ '' --title '' @ shell_quote title)"
    by (simp add: c)
  then show "sublist ''yesnocancel'' (message_command fl title text yes_no_cancel warning)"
    unfolding sublist_def by blast
  have "message_command fl title text yes_no_cancel warning =
        ''kdialog --'' @ ''warning''
        @ (''yesnocancel '' @ shell_quote text @ '' --title '' @ shell_quote title)"
    by (simp add: c)
  then show "sublist ''warning'' (message_command fl title text yes_no_cancel warning)"
    unfolding sublist_def by blast
next
  assume "\<not> is_zenity fl \<and> \<not> is_kdialog fl"
  then show "message_command fl title text yes_no_cancel warning = ''echo''"
    by (simp add: message_command_def desktop_helper_def is_zenity_def is_kdialog_def)
qed

theorem message_yes_no_cancel_warning_witness:
  "sublist ''--icon-name=dialog-warning''
     (message_command (flags_of [has_qarma, has_kdialog]) ''Quit'' ''Save changes?''
        yes_no_cancel warning)
   \<and> message_command (flags_of [has_kdialog]) ''Quit'' ''Save changes?'' yes_no_cancel warning
     = ''kdialog --warningyesnocancel '' @ shell_quote ''Save changes?''
       @ '' --title '' @ shell_quote ''Quit''
   \<and> message_command (flags_of []) ''Quit'' ''Save changes?'' yes_no_cancel warning = ''echo''"
proof -
  have z: "is_zenity (flags_of [has_qarma, has_kdialog])"
    and k: "\<not> is_zenity (flags_of [has_kdialog]) \<and> is_kdialog (flags_of [has_kdialog])"
    and n: "\<not> is_zenity (flags_of []) \<and> \<not> is_kdialog (flags_of [])"
    by (simp_all add: is_zenity_def is_kdialog_def flags_of_def)
  show ?thesis
    using message_yes_no_cancel_warning [of "flags_of [has_qarma, has_kdialog]" "''Quit''" "''Save changes?''"] z
      message_yes_no_cancel_warning [of "flags_of [has_kdialog]" "''Quit''" "''Save changes?''"] k
      message_yes_no_cancel_warning [of "flags_of []" "''Quit''" "''Save changes?''"] n
    by blast
qed

text \<open>
  C6 as stated fails with zenity: the command for \<open>yes_no_cancel\<close> and \<open>warning\<close>
  does not hold the button-set name \<^verbatim>\<open>yesnocancel\<close>.
\<close>

theorem message_yesnocancel_token_counterexample:
  "message_command (flags_of [has_zenity]) ''Quit'' ''Save?'' yes_no_cancel warning
     = ''zenity --list --column '' @ [CHR 0x27, CHR 0x27] @ '' --hide-header ''
       @ [CHR 0x27] @ ''Yes'' @ [CHR 0x27] @ '' '' @ [CHR 0x27] @ ''No'' @ [CHR 0x27]
       @ '' --title '' @ [CHR 0x27] @ ''Quit'' @ [CHR 0x27]
       @ '' --width 300 --height 0 --text '' @ [CHR 0x27] @ ''Save?'' @ [CHR 0x27]
       @ '' --icon-name=dialog-warning''
   \<and> \<not> sublist ''yesnocancel''
         (message_command (flags_of [has_zenity]) ''Quit'' ''Save?'' yes_no_cancel warning)"
  by code_simp


subsection \<open>The verbose flag\<close>

text \<open>
  Only \<^verbatim>\<open>execute\<close> writes to the diagnostic stream. The dialog constructors call
  \<^verbatim>\<open>m_async.start\<close> themselves, which writes nothing: once the helpers have been
  scanned, constructing a dialog leaves the stream as it was, whatever the verbose flag.
\<close>

lemma start_default_cerr:
  "start command (executor_default, w) = Some (e', w') \<Longrightarrow> cerr w' = cerr w"
  by (auto simp: start_idle executor_default_def split: option.splits)

lemma dialogs_write_no_diagnostics:
  assumes "analysed w"
  shows "message title text buttons icon w = Some (e', w') \<Longrightarrow> cerr w' = cerr w"
    and "notify title text icon w = Some (e', w') \<Longrightarrow> cerr w' = cerr w"
    and "file_dialog in_type title default_path filter' multiselect w = Some (e', w')
         \<Longrightarrow> cerr w' = cerr w"
  using assms
  by (auto simp: message_def notify_def file_dialog_def dialog_def dest: start_default_cerr)

text \<open>
  The executor reads neither the flags nor the diagnostic stream, and writes neither.
\<close>

lemma stop_frame:
  "stop (e, w\<lparr>flags := F, cerr := C\<rparr>)
   = map_option (apsnd (\<lambda>v. v\<lparr>flags := F, cerr := C\<rparr>)) (stop (e, w))"
proof (cases "stop_loop e")
  case None
  then show ?thesis
    by (simp add: stop_def)
next
  case (Some a)
  then show ?thesis
    by (cases "m_stream a") (simp_all add: stop_def)
qed

lemma start_frame:
  "start command (e, w\<lparr>flags := F, cerr := C\<rparr>)
   = map_option (apsnd (\<lambda>v. v\<lparr>flags := F, cerr := C\<rparr>)) (start command (e, w))"
proof (cases "stop (e, w)")
  case None
  then show ?thesis
    by (simp add: start_def stop_frame)
next
  case (Some ew)
  obtain e1 w1 where "ew = (e1, w1)"
    by (cases ew)
  with Some have "stop (e, w) = Some (e1, w1)"
    by simp
  then show ?thesis
    by (cases "spawn w1 (c_str command)") (simp_all add: start_def stop_frame)
qed

lemma result_frame:
  "result x (e, w\<lparr>flags := F, cerr := C\<rparr>)
   = map_option (apsnd (apsnd (\<lambda>v. v\<lparr>flags := F, cerr := C\<rparr>))) (result x (e, w))"
  by (cases "stop (e, w)") (auto simp: result_def stop_frame)

text \<open>
  \<^verbatim>\<open>execute\<close> runs the command it was given whether or not it logs it: with the flag
  set it does what it does with the flag cleared, returns the same output and exit code,
  and the diagnostic stream has one more line.
\<close>

lemma execute_verbose_only_logs:
  assumes "\<not> flags w is_verbose"
  shows "execute command x (w\<lparr>flags := (flags w)(is_verbose := True)\<rparr>)
   = map_option (apsnd (\<lambda>v. v\<lparr>flags := (flags w)(is_verbose := True),
                               cerr := cerr w @ ''pfd: '' @ command @ [CHR 0x0A]\<rparr>))
       (execute command x w)"
proof -
  let ?F = "(flags w)(is_verbose := True)"
  let ?C = "cerr w @ ''pfd: '' @ command @ [CHR 0x0A]"
  let ?q = "w"
  let ?U = "\<lambda>v::world. v\<lparr>flags := ?F, cerr := ?C\<rparr>"
  have l: "execute command x (w\<lparr>flags := ?F\<rparr>)
     = start command (executor_default, ?U ?q) \<bind>
         (\<lambda>ew. result x ew \<bind> (\<lambda>(r, ew'). stop ew' \<bind> (\<lambda>(e', w'). Some (r, w'))))"
    by (simp add: execute_def)
  have q: "execute command x ?q
     = start command (executor_default, ?q) \<bind>
         (\<lambda>ew. result x ew \<bind> (\<lambda>(r, ew'). stop ew' \<bind> (\<lambda>(e', w'). Some (r, w'))))"
    using assms by (simp add: execute_def)
  show ?thesis
  proof (cases "start command (executor_default, ?q)")
    case None
    then show ?thesis
      unfolding l q by (simp add: start_frame)
  next
    case s: (Some ew)
    obtain e1 w1 where ew: "ew = (e1, w1)"
      by (cases ew)
    show ?thesis
    proof (cases "result x (e1, w1)")
      case None
      then show ?thesis
        unfolding l q using s ew by (simp add: start_frame result_frame)
    next
      case r: (Some rew)
      obtain r' e2 w2 where rew: "rew = (r', e2, w2)"
        by (cases rew)
      show ?thesis
      proof (cases "stop (e2, w2)")
        case None
        then show ?thesis
          unfolding l q using s ew r rew by (simp add: start_frame result_frame stop_frame)
      next
        case (Some ew3)
        then show ?thesis
          unfolding l q using s ew r rew
          by (cases ew3) (simp add: start_frame result_frame stop_frame)
      qed
    qed
  qed
qed

text \<open>
  C5 fails on the code. With the verbose flag set and zenity detected, constructing a
  message box, a notification and a file picker starts the three commands and writes
  nothing to the diagnostic stream, while \<^verbatim>\<open>execute\<close>, in the same world, writes the
  line \<^verbatim>\<open>pfd: \<close> and its command before running it.
\<close>

theorem verbose_dialogs_not_logged:
  "map_option (cerr \<circ> snd)
     (message ''t'' ''x'' ok info (world_of (launch_silent 0) [is_verbose, has_zenity] True))
     = Some []
   \<and> map_option (calls \<circ> snd)
     (message ''t'' ''x'' ok info (world_of (launch_silent 0) [is_verbose, has_zenity] True))
     = Some [Popen (''zenity --info --title '' @ [CHR 0x27] @ ''t'' @ [CHR 0x27]
                    @ '' --width 300 --height 0 --text '' @ [CHR 0x27] @ ''x'' @ [CHR 0x27]
                    @ '' --icon-name=dialog-information'') True]
   \<and> map_option (cerr \<circ> snd)
     (notify ''t'' ''x'' info (world_of (launch_silent 0) [is_verbose, has_zenity] True))
     = Some []
   \<and> map_option (cerr \<circ> snd)
     (open_file ''t'' [] [] False (world_of (launch_silent 0) [is_verbose, has_zenity] True))
     = Some []
   \<and> map_option (cerr \<circ> snd)
     (execute ''zenity --info'' None
        (world_of (launch_silent 0) [is_verbose, has_zenity] True))
     = Some (''pfd: zenity --info'' @ [CHR 0x0A])"
proof -
  let ?w = "world_of (launch_silent 0) [is_verbose, has_zenity] True"
  have i: "m_state executor_default = idle"
    by (simp add: executor_default_def)
  have d: "dialog False ?w = Some ?w"
    by (simp add: dialog_def world_of_def)
  have sp: "spawn ?w c = Some (pipe_of [] 0)" for c
    by (simp add: world_of_def launch_silent_def)
  have ce: "cerr ?w = []" and ca: "calls ?w = []" and fv: "flags ?w is_verbose"
    by (simp_all add: world_of_def flags_of_def)
  have st: "map_option (cerr \<circ> snd) (start c (executor_default, ?w)) = Some []"
    and sc: "map_option (calls \<circ> snd) (start c (executor_default, ?w)) = Some [Popen (c_str c) True]"
    for c
    by (simp_all add: start_idle [OF i] sp ce ca)
  have cmd: "c_str (message_command (flags ?w) ''t'' ''x'' ok info)
      = ''zenity --info --title '' @ [CHR 0x27] @ ''t'' @ [CHR 0x27]
        @ '' --width 300 --height 0 --text '' @ [CHR 0x27] @ ''x'' @ [CHR 0x27]
        @ '' --icon-name=dialog-information''"
    by (simp add: message_command_def world_of_def flags_of_def is_zenity_def
        desktop_helper_def shell_quote_def regex_replace_def c_str_def)
  have ex: "execute ''zenity --info'' None ?w
      = Some ((drained 0 (pipe_of [] 0), None),
           ?w\<lparr>calls := calls ?w @ [Popen (c_str ''zenity --info'') True, Pclose],
             cerr := (if flags ?w is_verbose
                      then cerr ?w @ ''pfd: '' @ ''zenity --info'' @ [CHR 0x0A] else cerr ?w)\<rparr>)"
    using execute_runs [OF sp ends_at_pipe_of_Nil, of "''zenity --info''" None]
    by (simp add: pipe_of_def)
  show ?thesis
    by (simp add: message_def notify_def open_file_def file_dialog_def d st sc cmd ex fv ce
        del: append.simps)
qed

subsection \<open>Quoting\<close>

lemma regex_replace_Nil [simp]: "regex_replace [] re fmt = []"
  by (simp add: regex_replace_def)

lemma regex_replace_Cons [simp]:
  "regex_replace (c # cs) re fmt = (if re c then fmt c else [c]) @ regex_replace cs re fmt"
  by (simp add: regex_replace_def)

lemma sh_word_quoted:
  "sh_word True (regex_replace s (\<lambda>c. c = CHR 0x27) (\<lambda>c. [CHR 0x27, CHR 0x5C, CHR 0x27, CHR 0x27])
                 @ [CHR 0x27]) = Some s"
  by (induction s) simp_all

text \<open>
  Read by the shell as one word, \<^verbatim>\<open>shell_quote\<close> of a string is that string,
  whatever characters it holds.
\<close>

lemma shell_quote_roundtrip: "sh_word False (shell_quote s) = Some s"
  by (simp add: shell_quote_def sh_word_quoted)

lemma ps_literal_plain:
  "c \<noteq> CHR 0x27 \<Longrightarrow> cs \<noteq> [] \<Longrightarrow>
   ps_literal True (c # cs) = map_option ((#) c) (ps_literal True cs)"
  by (cases cs) simp_all

lemma ps_literal_quoted:
  "ps_literal True (regex_replace s (\<lambda>c. c = CHR 0x27 \<or> c = CHR 0x22) (\<lambda>c. [c, c])
                    @ [CHR 0x27])
   = Some (regex_replace s (\<lambda>c. c = CHR 0x22) (\<lambda>c. [c, c]))"
  by (induction s) (simp_all add: ps_literal_plain)

text \<open>
  Read as a single-quoted PowerShell literal, \<^verbatim>\<open>powershell_quote\<close> of a string is that
  string with every double quote doubled: it is the string itself exactly when it holds
  no double quote.
\<close>

lemma powershell_quote_reading:
  "ps_literal False (powershell_quote s)
   = Some (regex_replace s (\<lambda>c. c = CHR 0x22) (\<lambda>c. [c, c]))"
  by (simp add: powershell_quote_def ps_literal_quoted)

text \<open>
  C4 fails on the code for \<^verbatim>\<open>powershell_quote\<close>, as the comments above the function
  say (\<^verbatim>\<open>FIXME: the \" sequence seems unsafe, too!\<close>). The string made of a backslash
  and a double quote is quoted as \<^verbatim>\<open>'\""'\<close>, which PowerShell reads as a backslash
  and two double quotes.
\<close>

theorem powershell_quote_backslash_quote:
  "powershell_quote [CHR 0x5C, CHR 0x22] = [CHR 0x27, CHR 0x5C, CHR 0x22, CHR 0x22, CHR 0x27]
   \<and> ps_literal False (powershell_quote [CHR 0x5C, CHR 0x22])
     = Some [CHR 0x5C, CHR 0x22, CHR 0x22]
   \<and> ps_literal False (powershell_quote [CHR 0x5C, CHR 0x22]) \<noteq> Some [CHR 0x5C, CHR 0x22]"
  by (simp add: powershell_quote_def regex_replace_def)

end
